theory Spec2Isabelle
  imports Complex_Main "HOL-Library.Log_Nat"
begin

section \<open>JavaScript values and form rows\<close>

text \<open>
  The client scripts of the SDRT app are event handlers of the host framework's form
  lifecycle.  A row of a child table is a JavaScript object; a field that was never set
  reads as \<open>undefined\<close>.  A number is an IEEE 754 double: a finite one is held as the
  rational it is (the two zeros as one value, which \<open>===\<close>, \<open>>=\<close> and truthiness do not
  tell apart), besides \<open>Infinity\<close>, \<open>-Infinity\<close> and \<open>NaN\<close>.  A date field is held as
  its day number, the host keeping it as a \<open>YYYY-MM-DD\<close> string that only
  \<open>frappe.datetime\<close> interprets.
\<close>

datatype jsnum = Fin rat | PInf | NInf | NaN

datatype jsval = JUndefined | JNull | JNumber jsnum | JStr string | JDate int

abbreviation JNum :: "rat \<Rightarrow> jsval" where
  "JNum x \<equiv> JNumber (Fin x)"

type_synonym doc = "string \<Rightarrow> jsval"

text \<open>
  JavaScript truthiness: \<open>undefined\<close>, \<open>null\<close>, \<open>0\<close>, \<open>NaN\<close> and \<open>''\<close> are falsy.
\<close>

fun truthy :: "jsval \<Rightarrow> bool" where
  "truthy JUndefined = False"
| "truthy JNull = False"
| "truthy (JNumber n) = (n \<noteq> Fin 0 \<and> n \<noteq> NaN)"
| "truthy (JStr s) = (s \<noteq> [])"
| "truthy (JDate d) = True"

text \<open>\<open>a || b\<close> on values.\<close>

definition js_or :: "jsval \<Rightarrow> jsval \<Rightarrow> jsval" where
  "js_or a b = (if truthy a then a else b)"

text \<open>\<open>x || 0\<close> on a number: a falsy number (\<open>0\<close> or \<open>NaN\<close>) is replaced by \<open>0\<close>.\<close>

definition or_zero :: "jsnum \<Rightarrow> jsnum" where
  "or_zero x = (if x \<noteq> Fin 0 \<and> x \<noteq> NaN then x else Fin 0)"

text \<open>
  The product \<open>x * y\<close> of two doubles is the exact product rounded to the nearest
  double, ties to the even significand.  \<open>expo a\<close> is the binary exponent of a positive
  \<open>a\<close>, that is \<open>2 powi expo a \<le> a < 2 powi (expo a + 1)\<close>; a double has 53 significant bits
  and no bit below \<open>2 powi - 1074\<close>, and a result that rounds to \<open>2 powi 1024\<close> or more is
  infinite.
\<close>

definition expo :: "rat \<Rightarrow> int" where
  "expo a = (if a \<ge> 1 then int (floorlog 2 (nat \<lfloor>a\<rfloor>)) - 1
             else - int (floorlog 2 (nat (\<lceil>1 / a\<rceil> - 1))))"

definition half_even :: "rat \<Rightarrow> int" where
  "half_even y =
     (let m = \<lfloor>y\<rfloor>; d = y - of_int m
      in if d < 1 / 2 then m
         else if 1 / 2 < d then m + 1
         else if even m then m else m + 1)"

definition rnd :: "rat \<Rightarrow> jsnum" where
  "rnd x =
     (if x = 0 then Fin 0
      else (let a = \<bar>x\<bar>;
                q = max (expo a - 52) (- 1074);
                m = half_even (a / 2 powi q)
            in if 971 < q \<or> (q = 971 \<and> m = 2 ^ 53)
               then (if 0 < x then PInf else NInf)
               else Fin (if 0 < x then of_int m * 2 powi q else - (of_int m * 2 powi q))))"

text \<open>
  The sign of a number, and \<open>x * y\<close>: with \<open>NaN\<close>, or with zero times an infinity, the
  product is \<open>NaN\<close>; any other product with an infinity is the infinity of the product
  of the signs.
\<close>

definition sign :: "jsnum \<Rightarrow> int" where
  "sign x = (case x of Fin a \<Rightarrow> (if 0 < a then 1 else if a < 0 then - 1 else 0)
             | PInf \<Rightarrow> 1 | NInf \<Rightarrow> - 1 | NaN \<Rightarrow> 0)"

definition js_times :: "jsnum \<Rightarrow> jsnum \<Rightarrow> jsnum" where
  "js_times x y =
     (case (x, y) of
        (Fin a, Fin b) \<Rightarrow> rnd (a * b)
      | _ \<Rightarrow> if x = NaN \<or> y = NaN \<or> sign x * sign y = 0 then NaN
             else if 0 < sign x * sign y then PInf else NInf)"

text \<open>\<open>x >= 0\<close>, false of \<open>NaN\<close>; and \<open>v !== x\<close> for a number \<open>x\<close>, true when \<open>x\<close> is \<open>NaN\<close>.\<close>

definition not_negative :: "jsnum \<Rightarrow> bool" where
  "not_negative x = (case x of Fin a \<Rightarrow> 0 \<le> a | PInf \<Rightarrow> True | _ \<Rightarrow> False)"

definition strict_neq :: "jsval \<Rightarrow> jsnum \<Rightarrow> bool" where
  "strict_neq v x = (x = NaN \<or> v \<noteq> JNumber x)"

text \<open>
  \<open>String(v)\<close> and \<open>v.toString()\<close>: a string is itself; the text of any other value is
  produced by the language runtime, here the parameter \<open>str\<close>.
\<close>

definition js_String :: "(jsval \<Rightarrow> string) \<Rightarrow> jsval \<Rightarrow> string" where
  "js_String str v = (case v of JStr s \<Rightarrow> s | _ \<Rightarrow> str v)"

text \<open>The regular expression \<open>/^\d+$/\<close>: one or more characters, each of \<open>0\<close> to \<open>9\<close>.\<close>

definition is_digit :: "char \<Rightarrow> bool" where
  "is_digit c = (48 \<le> (of_char c :: nat) \<and> (of_char c :: nat) \<le> 57)"

definition all_digits :: "string \<Rightarrow> bool" where
  "all_digits s = (s \<noteq> [] \<and> list_all is_digit s)"

text \<open>
  \<open>flt\<close> (\<open>frappe.utils.flt\<close>) is the host framework's conversion to a number: a number
  is returned as it is, a missing value or an empty string gives \<open>0\<close>, and any other
  value is parsed as text by the host (the parameter \<open>parse\<close>, \<open>NaN\<close> when the text is
  not a number), a non-numeric text giving \<open>0\<close>.
\<close>

definition flt :: "(jsval \<Rightarrow> jsnum) \<Rightarrow> jsval \<Rightarrow> jsnum" where
  "flt parse v =
     (case v of
        JNumber x \<Rightarrow> x
      | JUndefined \<Rightarrow> Fin 0
      | JNull \<Rightarrow> Fin 0
      | JStr [] \<Rightarrow> Fin 0
      | _ \<Rightarrow> (if parse v = NaN then Fin 0 else parse v))"

section \<open>Handler state and host calls\<close>

text \<open>
  A handler is dispatched for one row, \<open>locals[cdt][cdn]\<close>, which may be absent.  What it
  does to the outside is a sequence of host calls: \<open>frappe.model.set_value\<close> on its row
  and \<open>frappe.show_alert\<close> (message and indicator).  \<open>set_value\<close> stores the value in
  the row's field; the change events the host delivers afterwards are the host's.
\<close>

datatype error = TypeError | ReferenceError

datatype event = Set_value string jsval | Show_alert string string

record ctx =
  target :: "doc option"
  events :: "event list"

definition set_value :: "string \<Rightarrow> jsval \<Rightarrow> ctx \<Rightarrow> ctx" where
  "set_value f v s =
     s\<lparr>target := map_option (\<lambda>d. d(f := v)) (target s),
       events := events s @ [Set_value f v]\<rparr>"

definition show_alert :: "string \<Rightarrow> string \<Rightarrow> ctx \<Rightarrow> ctx" where
  "show_alert msg indicator s = s\<lparr>events := events s @ [Show_alert msg indicator]\<rparr>"

section \<open>Row estimation of the child table \<open>table demande dachat\<close>\<close>

text \<open>
  \<open>compute\<close> of \<open>table_demande_dachat.js\<close>, bound to the events \<open>qte\<close>, \<open>pu\<close> and
  \<open>form_render\<close>: returns at once when the row is absent, otherwise writes the product
  when it is not negative and is not already the stored value (\<open>!==\<close>).
\<close>

definition compute :: "(jsval \<Rightarrow> jsnum) \<Rightarrow> ctx \<Rightarrow> ctx" where
  "compute parse s =
     (case target s of
        None \<Rightarrow> s
      | Some row \<Rightarrow>
          (let q = or_zero (flt parse (row ''qte''));
               pu = or_zero (flt parse (row ''pu''));
               est = js_times q pu
           in if not_negative est \<and> strict_neq (row ''estimation'') est
              then set_value ''estimation'' (JNumber est) s
              else s))"

text \<open>
  \<open>recalc_row_and_total\<close> of the Material Request script, bound to \<open>qte\<close> and \<open>pu\<close>:
  reading a field of an absent row throws; the product is written whenever it is not
  already the stored value; the handler ends by calling \<open>recalc_total(frm)\<close>.  The script
  holds the body of \<open>recalc_total\<close> only as a comment, so the function bound to that name
  at run time is the parameter \<open>recalc_total\<close>, which receives the state reached; with
  no function bound, the call throws and \<open>recalc_total\<close> is \<open>Pair (Some ReferenceError)\<close>.
\<close>

definition recalc_row_and_total ::
  "(jsval \<Rightarrow> jsnum) \<Rightarrow> (ctx \<Rightarrow> error option \<times> ctx) \<Rightarrow> ctx \<Rightarrow> error option \<times> ctx" where
  "recalc_row_and_total parse recalc_total s =
     (case target s of
        None \<Rightarrow> (Some TypeError, s)
      | Some row \<Rightarrow>
          (let qty = or_zero (flt parse (row ''qte''));
               pu = or_zero (flt parse (row ''pu''));
               new_estimation = js_times qty pu
           in recalc_total
                (if strict_neq (row ''estimation'') new_estimation
                 then set_value ''estimation'' (JNumber new_estimation) s
                 else s)))"

text \<open>The product both handlers compute for a row.\<close>

definition product :: "(jsval \<Rightarrow> jsnum) \<Rightarrow> doc \<Rightarrow> jsnum" where
  "product parse row =
     js_times (or_zero (flt parse (row ''qte''))) (or_zero (flt parse (row ''pu'')))"

section \<open>Sanitization of a purely numeric \<open>item_code\<close>\<close>

text \<open>
  The receiver of a String method (\<open>startsWith\<close>, \<open>trim\<close>): a string, or a date the
  host holds as a string; any other value has no such method and the call throws.
\<close>

definition as_string :: "(jsval \<Rightarrow> string) \<Rightarrow> jsval \<Rightarrow> string option" where
  "as_string str v =
     (case v of JStr s \<Rightarrow> Some s | JDate d \<Rightarrow> Some (str (JDate d)) | _ \<Rightarrow> None)"

definition startsWith :: "string \<Rightarrow> string \<Rightarrow> bool" where
  "startsWith s p = (take (length p) s = p)"

text \<open>The test \<open>v && /^\d+$/.test(String(v))\<close> every copy of the guard starts with.\<close>

definition numeric_code :: "(jsval \<Rightarrow> string) \<Rightarrow> jsval \<Rightarrow> bool" where
  "numeric_code str v = (truthy v \<and> all_digits (js_String str v))"

text \<open>
  \<open>item_code\<close> of \<open>sdrt/public/js/purchase_receipt.js\<close> (Purchase Receipt Item): the
  fallback is \<open>d.code_analytique || ''\<close>, written only when it is truthy; no notice.
\<close>

definition public_item_code :: "(jsval \<Rightarrow> string) \<Rightarrow> ctx \<Rightarrow> error option \<times> ctx" where
  "public_item_code str s =
     (case target s of
        None \<Rightarrow> (Some TypeError, s)
      | Some d \<Rightarrow>
          if numeric_code str (d ''item_code'')
          then (let fallback = js_or (d ''code_analytique'') (JStr [])
                in if truthy fallback
                   then (None, set_value ''item_code'' fallback s)
                   else (None, s))
          else (None, s))"

text \<open>\<open>item_code\<close> of the Purchase Order script (Purchase Order Item): the same guard.\<close>

definition po_item_code :: "(jsval \<Rightarrow> string) \<Rightarrow> ctx \<Rightarrow> error option \<times> ctx" where
  "po_item_code str s =
     (case target s of
        None \<Rightarrow> (Some TypeError, s)
      | Some it \<Rightarrow>
          if numeric_code str (it ''item_code'')
          then (let fallback = js_or (it ''code_analytique'') (JStr [])
                in if truthy fallback
                   then (None, set_value ''item_code'' fallback s)
                   else (None, s))
          else (None, s))"

text \<open>
  \<open>item_code\<close> and \<open>validate\<close> of \<open>sdrt/sdrt/custom/purchase_receipt.js\<close>: a numeric
  code is replaced by the placeholder \<open>BUDGET-LINE\<close>, with a notice at the field change.
  \<open>validate\<close> first calls \<open>item.item_code.startsWith\<close>, which throws on a value that
  has no String methods.
\<close>

definition custom_item_code :: "(jsval \<Rightarrow> string) \<Rightarrow> ctx \<Rightarrow> error option \<times> ctx" where
  "custom_item_code str s =
     (case target s of
        None \<Rightarrow> (Some TypeError, s)
      | Some item \<Rightarrow>
          if numeric_code str (item ''item_code'')
          then (None, show_alert ''Invalid item code replaced with placeholder'' ''orange''
                        (set_value ''item_code'' (JStr ''BUDGET-LINE'') s))
          else (None, s))"

definition custom_validate :: "(jsval \<Rightarrow> string) \<Rightarrow> ctx \<Rightarrow> error option \<times> ctx" where
  "custom_validate str s =
     (case target s of
        None \<Rightarrow> (Some TypeError, s)
      | Some item \<Rightarrow>
          if truthy (item ''item_code'')
          then (case as_string str (item ''item_code'') of
                  None \<Rightarrow> (Some TypeError, s)
                | Some c \<Rightarrow>
                    if \<not> startsWith c ''BUDGET-LINE''
                       \<and> all_digits (js_String str (item ''item_code''))
                    then (None, set_value ''item_code'' (JStr ''BUDGET-LINE'') s)
                    else (None, s))
          else (None, s))"

text \<open>
  The Purchase Receipt script that also has \<open>before_save\<close>: at the field change the
  fallback is \<open>item.code_analytique || null\<close>, written when truthy, and the
  notice follows the inner \<open>if\<close>, so it is shown for every numeric code; \<open>validate\<close> is
  the same without the notice.
\<close>

definition receipt_item_code :: "(jsval \<Rightarrow> string) \<Rightarrow> ctx \<Rightarrow> error option \<times> ctx" where
  "receipt_item_code str s =
     (case target s of
        None \<Rightarrow> (Some TypeError, s)
      | Some item \<Rightarrow>
          if numeric_code str (item ''item_code'')
          then (let fallback = js_or (item ''code_analytique'') JNull;
                    s1 = (if truthy fallback then set_value ''item_code'' fallback s else s)
                in (None, show_alert ''Invalid item code corrected'' ''orange'' s1))
          else (None, s))"

definition receipt_validate :: "(jsval \<Rightarrow> string) \<Rightarrow> ctx \<Rightarrow> error option \<times> ctx" where
  "receipt_validate str s =
     (case target s of
        None \<Rightarrow> (Some TypeError, s)
      | Some item \<Rightarrow>
          if numeric_code str (item ''item_code'')
          then (let fallback = js_or (item ''code_analytique'') JNull
                in if truthy fallback
                   then (None, set_value ''item_code'' fallback s)
                   else (None, s))
          else (None, s))"

text \<open>
  \<open>before_save\<close> of the same script walks \<open>frm.doc.items\<close> (nothing when the field is
  falsy) and, for a numeric code with a truthy \<open>code_analytique\<close>, calls \<open>set_value\<close> on
  the row under its own \<open>doctype\<close> and \<open>name\<close>.  The result holds, for each row in
  order, the row afterwards and the host calls made for it.
\<close>

definition before_save_item :: "(jsval \<Rightarrow> string) \<Rightarrow> doc \<Rightarrow> ctx" where
  "before_save_item str item =
     (let s = \<lparr>target = Some item, events = []\<rparr>
      in if numeric_code str (item ''item_code'') \<and> truthy (item ''code_analytique'')
         then set_value ''item_code'' (item ''code_analytique'') s
         else s)"

definition before_save :: "(jsval \<Rightarrow> string) \<Rightarrow> doc list option \<Rightarrow> ctx list" where
  "before_save str frm_items =
     (case frm_items of None \<Rightarrow> [] | Some its \<Rightarrow> map (before_save_item str) its)"

text \<open>
  The callback of \<open>code_analytique\<close> in \<open>sdrt/public/js/purchase_receipt.js\<close>, run with
  the answer \<open>r.message\<close> of \<open>ensure_budget_item\<close> (absent when falsy) on the row \<open>d\<close>
  the handler captured: each test reads the row as the earlier writes left it.
\<close>

definition field :: "ctx \<Rightarrow> string \<Rightarrow> jsval" where
  "field s f = (case target s of None \<Rightarrow> JUndefined | Some d \<Rightarrow> d f)"

definition code_analytique_callback :: "doc option \<Rightarrow> doc \<Rightarrow> ctx" where
  "code_analytique_callback message d =
     (let s = \<lparr>target = Some d, events = []\<rparr>
      in case message of
           None \<Rightarrow> s
         | Some info \<Rightarrow>
             (let s1 = set_value ''item_code'' (info ''item_code'') s;
                  s2 = (if \<not> truthy (field s1 ''item_name'')
                        then set_value ''item_name''
                               (js_or (info ''item_name'') (info ''item_code'')) s1
                        else s1);
                  s3 = (if \<not> truthy (field s2 ''uom'')
                        then set_value ''uom'' (js_or (info ''stock_uom'') (JStr ''Nos'')) s2
                        else s2);
                  s4 = (if \<not> truthy (field s3 ''stock_uom'')
                        then set_value ''stock_uom''
                               (js_or (info ''stock_uom'') (JStr ''Nos'')) s3
                        else s3)
              in if \<not> truthy (field s4 ''conversion_factor'')
                 then set_value ''conversion_factor'' (JNum 1) s4
                 else s4))"

section \<open>Purchase Order: schedule dates and the import of budget lines\<close>

text \<open>
  \<open>frappe.datetime.get_diff\<close> and \<open>add_days\<close> are the host's: on dates, the difference
  in days and the date so many days later.  On a value that is not a date the difference
  is no number, so that a comparison with it is false.
\<close>

definition get_diff :: "jsval \<Rightarrow> jsval \<Rightarrow> int option" where
  "get_diff a b = (case (a, b) of (JDate x, JDate y) \<Rightarrow> Some (x - y) | _ \<Rightarrow> None)"

definition add_days :: "jsval \<Rightarrow> int \<Rightarrow> jsval" where
  "add_days d n = (case d of JDate x \<Rightarrow> JDate (x + n) | _ \<Rightarrow> JUndefined)"

definition negative :: "int option \<Rightarrow> bool" where
  "negative r = (case r of Some n \<Rightarrow> n < 0 | None \<Rightarrow> False)"

text \<open>
  \<open>validate_schedule_date\<close>, bound to \<open>schedule_date\<close> and called at the end of
  \<open>code_analytique\<close>; \<open>frm_doc\<close> is \<open>frm.doc\<close>.
\<close>

definition validate_schedule_date :: "doc \<Rightarrow> ctx \<Rightarrow> error option \<times> ctx" where
  "validate_schedule_date frm_doc s =
     (case target s of
        None \<Rightarrow> (Some TypeError, s)
      | Some item \<Rightarrow>
          if \<not> truthy (item ''schedule_date'') \<or> \<not> truthy (frm_doc ''transaction_date'')
          then (None, s)
          else if negative (get_diff (item ''schedule_date'') (frm_doc ''transaction_date''))
          then (let new_date = add_days (frm_doc ''transaction_date'') 7
                in (None, show_alert ''Required By date adjusted to be after transaction date''
                            ''orange'' (set_value ''schedule_date'' new_date s)))
          else (None, s))"

text \<open>\<open>String.prototype.trim\<close> on characters up to U+00FF.\<close>

definition js_space :: "char \<Rightarrow> bool" where
  "js_space c = ((of_char c :: nat) \<in> {9, 10, 11, 12, 13, 32, 160})"

definition trim :: "string \<Rightarrow> string" where
  "trim s = rev (dropWhile js_space (rev (dropWhile js_space s)))"

text \<open>
  The form of a Purchase Order: \<open>frm.doc\<close>, its rows \<open>frm.doc.items\<close>, and the calls
  made on the form (\<open>refresh_field\<close>, and \<open>show_alert\<close> with a message template, its
  arguments and the indicator).
\<close>

datatype form_event = Refresh_field string | Alert string "nat list" string

record form =
  fdoc :: doc
  items :: "doc list"
  calls :: "form_event list"

text \<open>
  The body of the \<open>forEach\<close> in \<open>add_budget_lines_to_po\<close>, on the row \<open>fresh\<close> that
  \<open>frm.add_child('items')\<close> has just appended.  \<open>line.description.trim()\<close> throws on a
  truthy description without String methods; the row then keeps the two fields assigned
  before.
\<close>

definition budget_line_item ::
  "(jsval \<Rightarrow> string) \<Rightarrow> (jsval \<Rightarrow> jsnum) \<Rightarrow> doc \<Rightarrow> doc \<Rightarrow> doc \<Rightarrow> error option \<times> doc" where
  "budget_line_item str parse frm_doc fresh line =
     (let i1 = fresh(''item_code'' := js_or (line ''code_analytique'') (JStr []),
                     ''code_analytique'' := line ''code_analytique'');
          other_name = js_or (line ''code_analytique'') (JStr ''Budget Line'');
          name = (if truthy (line ''description'')
                  then (case as_string str (line ''description'') of
                          None \<Rightarrow> None
                        | Some t \<Rightarrow> Some (if trim t \<noteq> [] then line ''description'' else other_name))
                  else Some other_name)
      in case name of
           None \<Rightarrow> (Some TypeError, i1)
         | Some item_name \<Rightarrow>
             (let i2 = i1(''item_name'' := item_name,
                          ''details'' := JStr [],
                          ''qty'' := js_or (line ''qty'') (JNum 1),
                          ''rate'' := js_or (line ''rate'') (JNum 0),
                          ''uom'' := js_or (line ''uom'') (JStr ''Nos''),
                          ''stock_uom'' := js_or (line ''uom'') (JStr ''Nos''),
                          ''conversion_factor'' := JNum 1);
                  schedule_date = js_or (line ''schedule_date'') (frm_doc ''schedule_date'');
                  schedule_date' =
                    (if \<not> truthy schedule_date
                        \<or> negative (get_diff schedule_date (frm_doc ''transaction_date''))
                     then add_days (frm_doc ''transaction_date'') 7
                     else schedule_date);
                  i3 = i2(''schedule_date'' := schedule_date')
              in (None, i3(''amount'' := JNumber (js_times (or_zero (flt parse (i3 ''qty'')))
                                                            (or_zero (flt parse (i3 ''rate''))))))))"

text \<open>
  The loop: \<open>add_child\<close> is the host's, giving the new row from the rows already there;
  an exception leaves the rows appended so far.
\<close>

fun append_lines ::
  "(jsval \<Rightarrow> string) \<Rightarrow> (jsval \<Rightarrow> jsnum) \<Rightarrow> (doc list \<Rightarrow> doc) \<Rightarrow> doc \<Rightarrow> doc list \<Rightarrow> doc list
     \<Rightarrow> error option \<times> doc list" where
  "append_lines str parse add_child frm_doc its [] = (None, its)"
| "append_lines str parse add_child frm_doc its (line # rest) =
     (case budget_line_item str parse frm_doc (add_child its) line of
        (Some e, item) \<Rightarrow> (Some e, its @ [item])
      | (None, item) \<Rightarrow> append_lines str parse add_child frm_doc (its @ [item]) rest)"

text \<open>
  \<open>normalize_item_descriptions\<close>: a row whose name is its budget code and which has
  details takes the details as its name.  \<open>trim\<close> is called on \<open>item_name\<close> first, then
  on \<open>code_analytique\<close>.
\<close>

definition normalize_item :: "(jsval \<Rightarrow> string) \<Rightarrow> doc \<Rightarrow> error + (doc \<times> bool)" where
  "normalize_item str it =
     (let name_is_budget_code =
            (if truthy (it ''item_name'') \<and> truthy (it ''code_analytique'')
             then (case as_string str (it ''item_name'') of
                     None \<Rightarrow> None
                   | Some a \<Rightarrow>
                       (case as_string str (it ''code_analytique'') of
                          None \<Rightarrow> None
                        | Some b \<Rightarrow> Some (trim a = trim b)))
             else Some False)
      in case name_is_budget_code of
           None \<Rightarrow> Inl TypeError
         | Some nb \<Rightarrow>
             (let has_details_desc =
                    (truthy (it ''details'') \<and> length (trim (js_String str (it ''details''))) > 0)
              in if nb \<and> has_details_desc
                 then Inr (it(''item_name'' := JStr (trim (js_String str (it ''details''))),
                              ''details'' := JStr []), True)
                 else Inr (it, False)))"

fun normalize_items :: "(jsval \<Rightarrow> string) \<Rightarrow> doc list \<Rightarrow> error option \<times> doc list \<times> bool" where
  "normalize_items str [] = (None, [], False)"
| "normalize_items str (it # rest) =
     (case normalize_item str it of
        Inl e \<Rightarrow> (Some e, it # rest, False)
      | Inr (it', ch) \<Rightarrow>
          (case normalize_items str rest of
             (e, rest', ch') \<Rightarrow> (e, it' # rest', ch \<or> ch')))"

definition normalize_item_descriptions :: "(jsval \<Rightarrow> string) \<Rightarrow> form \<Rightarrow> error option \<times> form" where
  "normalize_item_descriptions str frm =
     (case normalize_items str (items frm) of
        (Some e, its, changed) \<Rightarrow> (Some e, frm\<lparr>items := its\<rparr>)
      | (None, its, changed) \<Rightarrow>
          (None, if changed
                 then frm\<lparr>items := its, calls := calls frm @ [Refresh_field ''items'']\<rparr>
                 else frm\<lparr>items := its\<rparr>))"

text \<open>
  \<open>add_budget_lines_to_po\<close>: the loop, \<open>refresh_field\<close>, the normalisation and the
  closing notice.  The \<open>qty\<close> triggers it schedules with \<open>setTimeout\<close> run after it has
  returned.
\<close>

definition add_budget_lines_to_po ::
  "(jsval \<Rightarrow> string) \<Rightarrow> (jsval \<Rightarrow> jsnum) \<Rightarrow> (doc list \<Rightarrow> doc) \<Rightarrow> form \<Rightarrow> doc list
     \<Rightarrow> error option \<times> form" where
  "add_budget_lines_to_po str parse add_child frm budget_lines =
     (case append_lines str parse add_child (fdoc frm) (items frm) budget_lines of
        (Some e, its) \<Rightarrow> (Some e, frm\<lparr>items := its\<rparr>)
      | (None, its) \<Rightarrow>
          (case normalize_item_descriptions str
                  (frm\<lparr>items := its, calls := calls frm @ [Refresh_field ''items'']\<rparr>) of
             (Some e, frm1) \<Rightarrow> (Some e, frm1)
           | (None, frm1) \<Rightarrow>
               (None, frm1\<lparr>calls := calls frm1
                                @ [Alert ''Added {0} budget lines'' [length budget_lines] ''green'']\<rparr>)))"

section \<open>The installation script \<open>install_on_target.sh\<close>\<close>

text \<open>
  What the script finds in the directory it is run from, and the exit status of each
  external command line it runs there.
\<close>

record bench_dir =
  apps_txt_is_file :: bool
  sdrt_is_dir :: bool
  site_is_dir :: "string \<Rightarrow> bool"
  apps_sdrt_is_dir :: bool
  apps_txt_lists_sdrt :: bool
  pwd :: string
  status :: "string \<Rightarrow> nat"

text \<open>
  What the script does, in order: a line printed, an external command line run (\<open>mv\<close>,
  \<open>ls\<close>, \<open>bench\<close>), a line appended to a file.  A statement yields its actions and,
  when it ends the script, the exit status.
\<close>

datatype action = Echo string | Run string | Append string string

type_synonym stmt = "action list \<times> nat option"

definition skip :: stmt where
  "skip = ([], None)"

definition echo :: "string \<Rightarrow> stmt" where
  "echo msg = ([Echo msg], None)"

definition exit :: "nat \<Rightarrow> stmt" where
  "exit n = ([], Some n)"

text \<open>Under \<open>set -e\<close> a command that fails ends the script with its status.\<close>

definition run :: "bench_dir \<Rightarrow> string \<Rightarrow> stmt" where
  "run d c = ([Run c], if status d c = 0 then None else Some (status d c))"

text \<open>\<open>echo txt >> file\<close>, under \<open>set -e\<close>.\<close>

definition append_line :: "bench_dir \<Rightarrow> string \<Rightarrow> string \<Rightarrow> stmt" where
  "append_line d txt file =
     ([Append txt file],
      let r = status d (''echo '' @ txt @ '' >> '' @ file) in if r = 0 then None else Some r)"

text \<open>\<open>c || echo msg\<close>: the failure of \<open>c\<close> is absorbed.\<close>

definition run_or :: "bench_dir \<Rightarrow> string \<Rightarrow> string \<Rightarrow> stmt" where
  "run_or d c msg = ([Run c] @ (if status d c = 0 then [] else [Echo msg]), None)"

definition andthen :: "stmt \<Rightarrow> stmt \<Rightarrow> stmt" where
  "andthen a b = (case snd a of Some n \<Rightarrow> a | None \<Rightarrow> (fst a @ fst b, snd b))"

definition block :: "stmt list \<Rightarrow> stmt" where
  "block stmts = foldr andthen stmts skip"

text \<open>\<open>if c; then a; else b; fi\<close> on the exit status of a command line.\<close>

definition test :: "bench_dir \<Rightarrow> string \<Rightarrow> stmt \<Rightarrow> stmt \<Rightarrow> stmt" where
  "test d c a b = andthen ([Run c], None) (if status d c = 0 then a else b)"

text \<open>A script that reaches its end exits with the status of its last command.\<close>

definition finish :: "stmt \<Rightarrow> action list \<times> nat" where
  "finish s = (fst s, case snd s of Some n \<Rightarrow> n | None \<Rightarrow> 0)"

text \<open>
  The script, statement by statement; \<open>script\<close> is \<open>$0\<close> and \<open>site\<close> is \<open>$1\<close>, empty
  when no argument is given.
\<close>

definition install_on_target :: "bench_dir \<Rightarrow> string \<Rightarrow> string \<Rightarrow> action list \<times> nat" where
  "install_on_target d script site =
     finish (block
       [echo (''=== SDRT App Installation Script ===''),
        echo (''Installing SDRT app in Frappe environment...''),
        (if \<not> apps_txt_is_file d
         then block
            [echo ([CHR 0xE2, CHR 0x9D, CHR 0x8C] @ '' Error: This doesn'' @ [CHR 0x27] @ ''t appear to be a frappe-bench directory''),
             echo (''Please run this script from your frappe-bench folder''),
             exit 1]
         else skip),
        (if \<not> sdrt_is_dir d
         then block
            [echo ([CHR 0xE2, CHR 0x9D, CHR 0x8C] @ '' Error: sdrt directory not found''),
             echo (''Please ensure you'' @ [CHR 0x27] @ ''ve extracted the sdrt-app.tar.gz file in the current directory''),
             exit 1]
         else skip),
        (if site = []
         then block
            [echo (''Please provide the site name as an argument:''),
             echo (''Usage: '' @ script @ '' your-site-name''),
             exit 1]
         else skip),
        (if \<not> site_is_dir d site
         then block
            [echo ([CHR 0xE2, CHR 0x9D, CHR 0x8C] @ '' Error: Site '' @ [CHR 0x27] @ site @ [CHR 0x27] @ '' not found''),
             echo (''Available sites:''),
             run d
               (''ls -1 sites/ | grep -v assets | grep -v apps.txt | grep -v common_site_config.json''),
             exit 1]
         else skip),
        echo (''Installing SDRT app for site: '' @ site),
        (if \<not> apps_sdrt_is_dir d
         then block
            [echo ([CHR 0xF0, CHR 0x9F, CHR 0x93, CHR 0x81] @ '' Moving sdrt to apps directory...''),
             run d (''mv sdrt apps/'')]
         else echo ([CHR 0xF0, CHR 0x9F, CHR 0x93, CHR 0x81] @ '' SDRT app already in apps directory'')),
        echo ([CHR 0xF0, CHR 0x9F, CHR 0x93, CHR 0x8B] @ '' Adding app to apps.txt...''),
        (if \<not> apps_txt_lists_sdrt d
         then block
            [append_line d (''sdrt'') (''sites/apps.txt''),
             echo ([CHR 0xE2, CHR 0x9C, CHR 0x93] @ '' Added sdrt to apps.txt'')]
         else echo ([CHR 0xE2, CHR 0x9C, CHR 0x93] @ '' sdrt already in apps.txt'')),
        echo ([CHR 0xF0, CHR 0x9F, CHR 0x93, CHR 0x8B] @ '' Registering app with bench...''),
        run_or d (''bench get-app '' @ pwd d @ ''/apps/sdrt'')
          ([CHR 0xE2, CHR 0x9A, CHR 0xA0, CHR 0xEF, CHR 0xB8, CHR 0x8F] @ ''  App may already be registered''),
        echo ([CHR 0xF0, CHR 0x9F, CHR 0x94, CHR 0xA7] @ '' Installing app on site '' @ site @ ''...''),
        run d (''bench --site '' @ site @ '' install-app sdrt''),
        echo ([CHR 0xF0, CHR 0x9F, CHR 0xA7, CHR 0xB9] @ '' Clearing cache...''),
        run d (''bench --site '' @ site @ '' clear-cache''),
        echo ([CHR 0xF0, CHR 0x9F, CHR 0x8F, CHR 0x97, CHR 0xEF, CHR 0xB8, CHR 0x8F] @ ''  Building app assets...''),
        run d (''bench build --app sdrt''),
        echo ([CHR 0xF0, CHR 0x9F, CHR 0x94, CHR 0x84] @ '' Running migrations...''),
        run d (''bench --site '' @ site @ '' migrate''),
        echo ([CHR 0xF0, CHR 0x9F, CHR 0x94, CHR 0x84] @ '' Restarting services...''),
        run d (''bench restart''),
        echo ([CHR 0xF0, CHR 0x9F, CHR 0x94, CHR 0x8D] @ '' Verifying installation...''),
        test d (''bench --site '' @ site @ '' list-apps | grep -q \"sdrt\"'')
         (block
            [echo ([CHR 0xE2, CHR 0x9C, CHR 0x85] @ '' SDRT App installation completed successfully!''),
             echo ([CHR 0xF0, CHR 0x9F, CHR 0x8C, CHR 0x90] @ '' You can now access your site at: http://your-domain:8000''),
             echo [],
             echo ([CHR 0xF0, CHR 0x9F, CHR 0x8E, CHR 0x89] @ '' Installation Summary:''),
             echo (''   '' @ [CHR 0xE2, CHR 0x9C, CHR 0x93] @ '' App registered with bench''),
             echo (''   '' @ [CHR 0xE2, CHR 0x9C, CHR 0x93] @ '' Installed on site: '' @ site),
             echo (''   '' @ [CHR 0xE2, CHR 0x9C, CHR 0x93] @ '' Assets built successfully''),
             echo (''   '' @ [CHR 0xE2, CHR 0x9C, CHR 0x93] @ '' Migrations completed''),
             echo (''   '' @ [CHR 0xE2, CHR 0x9C, CHR 0x93] @ '' Services restarted'')])
         (block
            [echo ([CHR 0xE2, CHR 0x9A, CHR 0xA0, CHR 0xEF, CHR 0xB8, CHR 0x8F] @ ''  Installation may have issues. Please check manually:''),
             echo (''   bench --site '' @ site @ '' list-apps'')]),
        echo [],
        echo ([CHR 0xF0, CHR 0x9F, CHR 0x94, CHR 0xA7] @ '' If you encounter any issues, try:''),
        echo (''   bench clear-cache''),
        echo (''   bench build''),
        echo (''   bench restart'')])"

section \<open>Sample inputs\<close>

text \<open>
  An object without fields, a host parser that finds no number in any text and one that
  reads the text \<open>3\<close> as 3, a text conversion for rows whose codes are strings already (it
  is then never consulted), an \<open>add_child\<close> that gives a row without fields, and a
  directory that is not a bench.
\<close>

definition empty_doc :: doc where
  "empty_doc = (\<lambda>f. JUndefined)"

definition no_number :: "jsval \<Rightarrow> jsnum" where
  "no_number v = NaN"

definition reads_three :: "jsval \<Rightarrow> jsnum" where
  "reads_three v = (if v = JStr ''3'' then Fin 3 else NaN)"

definition no_text :: "jsval \<Rightarrow> string" where
  "no_text v = []"

definition blank_child :: "doc list \<Rightarrow> doc" where
  "blank_child its = empty_doc"

definition no_bench :: bench_dir where
  "no_bench = \<lparr>apps_txt_is_file = False, sdrt_is_dir = True, site_is_dir = (\<lambda>n. False),
                apps_sdrt_is_dir = False, apps_txt_lists_sdrt = False, pwd = ''/tmp'',
                status = (\<lambda>c. 0)\<rparr>"

section \<open>Properties of the double product\<close>

text \<open>
  Rounding leaves an integer below \<open>2 ^ 53\<close> in absolute value as it is; in general it
  keeps 53 bits from the leading one.
\<close>

lemma half_even_int: "half_even (of_int j) = j"
  by (simp add: half_even_def)

lemma expo_int:
  assumes "1 \<le> n" and "n < 2 ^ 53"
  shows "0 \<le> expo (of_int n)" and "expo (of_int n) \<le> 52"
proof -
  let ?k = "floorlog 2 (nat n)"
  have pos: "0 < nat n" using assms by simp
  from floorlog_bounds [OF pos, of 2] have lo: "2 ^ (?k - 1) \<le> nat n" and hi: "nat n < 2 ^ ?k"
    by simp_all
  have k1: "1 \<le> ?k" using pos by (simp add: floorlog_def)
  have "nat n < 2 ^ 53" using assms by (simp add: nat_less_iff)
  then have "?k \<le> 53" by (intro floorlog_leI) simp_all
  with k1 show "0 \<le> expo (of_int n)" "expo (of_int n) \<le> 52"
    using assms by (simp_all add: expo_def)
qed

lemma rnd_pos_int:
  assumes "1 \<le> n" and "n < 2 ^ 53"
  shows "rnd (of_int n) = Fin (of_int n)"
proof -
  let ?e = "expo (of_int n)"
  from expo_int [OF assms] have e: "0 \<le> ?e" "?e \<le> 52" .
  define q where "q = ?e - 52"
  have q: "q \<le> 0" "- 52 \<le> q" "max (?e - 52) (- 1074) = q" using e by (simp_all add: q_def)
  define j where "j = n * 2 ^ nat (- q)"
  have "(2::rat) powi q = 1 / 2 ^ nat (- q)"
    using q(1) by (simp add: power_int_def field_simps)
  then have d: "(of_int n :: rat) / 2 powi q = of_int j"
    and m: "(of_int j :: rat) * 2 powi q = of_int n"
    by (simp_all add: j_def)
  have "\<bar>of_int n :: rat\<bar> = of_int n" using assms by simp
  then show ?thesis
    using assms q d m by (simp add: rnd_def Let_def half_even_int)
qed

lemma rnd_int: "\<bar>n\<bar> < 2 ^ 53 \<Longrightarrow> rnd (of_int n) = Fin (of_int n)"
proof -
  assume b: "\<bar>n\<bar> < 2 ^ 53"
  consider "n = 0" | "1 \<le> n" | "n \<le> - 1" by linarith
  then show ?thesis
  proof cases
    case 1
    then show ?thesis by (simp add: rnd_def)
  next
    case 2
    with b show ?thesis by (simp add: rnd_pos_int)
  next
    case 3
    let ?p = "- n"
    have p: "1 \<le> ?p" "?p < 2 ^ 53" using 3 b by simp_all
    let ?e = "expo (of_int ?p)"
    from expo_int [OF p] have e: "0 \<le> ?e" "?e \<le> 52" .
    define q where "q = ?e - 52"
    have q: "q \<le> 0" "- 52 \<le> q" "max (?e - 52) (- 1074) = q" using e by (simp_all add: q_def)
    define j where "j = ?p * 2 ^ nat (- q)"
    have "(2::rat) powi q = 1 / 2 ^ nat (- q)"
      using q(1) by (simp add: power_int_def field_simps)
    then have d: "(of_int ?p :: rat) / 2 powi q = of_int j"
      and m: "(of_int j :: rat) * 2 powi q = of_int ?p"
      by (simp_all add: j_def)
    have a: "\<bar>of_int n :: rat\<bar> = of_int ?p" using 3 by simp
    have neg: "\<not> (0 :: rat) < of_int n" "(of_int n :: rat) \<noteq> 0" using 3 by simp_all
    show ?thesis
      unfolding rnd_def Let_def a
      using neg q d m by (simp add: half_even_int)
  qed
qed


lemma expo_eq:
  assumes "0 < a" and lo: "2 powi e \<le> a" and hi: "a < 2 powi (e + 1)"
  shows "expo a = e"
proof (cases "1 \<le> a")
  case True
  have e0: "0 \<le> e"
  proof (rule ccontr)
    assume "\<not> 0 \<le> e"
    then have "e + 1 \<le> 0" by simp
    then have "(2::rat) powi (e + 1) \<le> 2 powi 0" by (intro power_int_increasing) simp_all
    with hi True show False by simp
  qed
  define k where "k = nat e"
  have ek: "e = int k" using e0 by (simp add: k_def)
  have lo': "(2::rat) ^ k \<le> a" using lo by (simp add: ek)
  have hi': "a < (2::rat) ^ (k + 1)" using hi by (simp add: ek power_int_add)
  let ?n = "nat \<lfloor>a\<rfloor>"
  have fl: "0 \<le> \<lfloor>a\<rfloor>" using True by simp
  have "(2::int) ^ k \<le> \<lfloor>a\<rfloor>"
    using lo' by (simp add: le_floor_iff)
  then have n_lo: "2 ^ k \<le> ?n" by (simp add: le_nat_iff)
  have "\<lfloor>a\<rfloor> < (2::int) ^ (k + 1)"
    using hi' by (simp add: floor_less_iff)
  then have n_hi: "?n < 2 ^ (k + 1)" using fl by (simp add: nat_less_iff)
  have "floorlog 2 ?n \<le> k + 1" using n_hi by (intro floorlog_leI) simp_all
  moreover have "Suc k \<le> floorlog 2 ?n" using n_lo by (intro floorlog_ge_SucI) simp_all
  ultimately have "floorlog 2 ?n = k + 1" by simp
  with True show ?thesis by (simp add: expo_def ek)
next
  case False
  then have a1: "a < 1" by simp
  have e0: "e < 0"
  proof (rule ccontr)
    assume "\<not> e < 0"
    then have "(2::rat) powi 0 \<le> 2 powi e" by (intro power_int_increasing) simp_all
    with lo a1 show False by simp
  qed
  define k where "k = nat (- e)"
  have ek: "e = - int k" and k1: "1 \<le> k" using e0 by (simp_all add: k_def)
  have p: "(2::rat) powi e = 1 / 2 ^ k" by (simp add: ek power_int_minus field_simps)
  have p1: "(2::rat) powi (e + 1) = 1 / 2 ^ (k - 1)"
  proof -
    have "e + 1 = - int (k - 1)" using k1 by (simp add: ek)
    then show ?thesis by (simp add: power_int_minus field_simps)
  qed
  let ?b = "1 / a"
  have b_hi: "?b \<le> 2 ^ k"
    using lo assms(1) by (simp add: p field_simps)
  have "a < 1 / 2 ^ (k - 1)" using hi unfolding p1 .
  then have b_lo: "2 ^ (k - 1) < ?b"
    using assms(1) by (simp add: field_simps)
  let ?c = "\<lceil>?b\<rceil> - 1"
  have "\<lceil>?b\<rceil> \<le> (2::int) ^ k" using b_hi by (simp add: ceiling_le_iff)
  then have c_hi: "?c < 2 ^ k" by simp
  have "(2::int) ^ (k - 1) < \<lceil>?b\<rceil>" using b_lo by (simp add: less_ceiling_iff)
  then have c_lo: "2 ^ (k - 1) \<le> ?c" by simp
  then have c0: "0 \<le> ?c" by (smt (verit) zero_le_power)
  have n_hi: "nat ?c < 2 ^ k" using c_hi c0 by (simp add: nat_less_iff)
  have n_lo: "2 ^ (k - 1) \<le> nat ?c" using c_lo by (simp add: le_nat_iff)
  have "floorlog 2 (nat ?c) \<le> k" using n_hi by (intro floorlog_leI) simp_all
  moreover have "Suc (k - 1) \<le> floorlog 2 (nat ?c)"
    using n_lo by (intro floorlog_ge_SucI) simp_all
  ultimately have "floorlog 2 (nat ?c) = k" using k1 by simp
  with False show ?thesis by (simp add: expo_def ek)
qed

lemma rnd_normal:
  assumes "0 < x" and "2 powi e \<le> x" and "x < 2 powi (e + 1)"
    and "- 1022 \<le> e" and "e \<le> 1022"
  shows "rnd x = Fin (of_int (half_even (x / 2 powi (e - 52))) * 2 powi (e - 52))"
proof -
  have "expo \<bar>x\<bar> = e" using assms by (simp add: expo_eq)
  moreover have "max (e - 52) (- 1074) = e - 52" using assms by simp
  ultimately show ?thesis
    using assms by (simp add: rnd_def Let_def)
qed

lemma rnd_sq: "rnd 9007199515875289 = Fin 9007199515875288"
proof -
  have "rnd 9007199515875289
          = Fin (of_int (half_even (9007199515875289 / 2 powi (53 - 52))) * 2 powi (53 - 52))"
    by (rule rnd_normal) simp_all
  also have "half_even (9007199515875289 / 2 powi (53 - 52)) = 4503599757937644"
  proof -
    have "\<lfloor>(9007199515875289 :: rat) / 2\<rfloor> = 4503599757937644"
      by (simp add: floor_eq_iff)
    then show ?thesis by (simp add: half_even_def Let_def)
  qed
  finally show ?thesis by simp
qed

lemma rnd_tenth:
  "rnd (10808639105689191 / 36028797018963968) = Fin (1351079888211149 / 4503599627370496)"
proof -
  have "rnd (10808639105689191 / 36028797018963968)
          = Fin (of_int (half_even (10808639105689191 / 36028797018963968 / 2 powi (- 2 - 52)))
                   * 2 powi (- 2 - 52))"
    by (rule rnd_normal) (simp_all add: power_int_minus)
  also have "half_even (10808639105689191 / 36028797018963968 / 2 powi (- 2 - 52))
               = 5404319552844596"
  proof -
    have "\<lfloor>(10808639105689191 :: rat) / 2\<rfloor> = 5404319552844595"
      by (simp add: floor_eq_iff)
    then show ?thesis by (simp add: half_even_def Let_def power_int_minus)
  qed
  finally show ?thesis by (simp add: power_int_minus)
qed

lemma rnd_zero [simp]: "rnd 0 = Fin 0"
  by (simp add: rnd_def)

lemma rnd_numeral [simp]:
  "(numeral k :: int) < 2 ^ 53 \<Longrightarrow> rnd (numeral k) = Fin (numeral k)"
  "(numeral k :: int) < 2 ^ 53 \<Longrightarrow> rnd (- numeral k) = Fin (- numeral k)"
  using rnd_int [of "numeral k"] rnd_int [of "- numeral k"] by simp_all

lemma js_times_Fin [simp]: "js_times (Fin a) (Fin b) = rnd (a * b)"
  by (simp add: js_times_def)

section \<open>Properties of the row estimation\<close>

lemma empty_doc_apply [simp]: "empty_doc f = JUndefined"
  by (simp add: empty_doc_def)

lemma compute_eq:
  "target s = Some row \<Longrightarrow>
   compute parse s =
     (if not_negative (product parse row) \<and> strict_neq (row ''estimation'') (product parse row)
      then s\<lparr>target := Some (row(''estimation'' := JNumber (product parse row))),
             events := events s @ [Set_value ''estimation'' (JNumber (product parse row))]\<rparr>
      else s)"
  by (simp add: compute_def product_def set_value_def Let_def)

lemma recalc_eq:
  "target s = Some row \<Longrightarrow>
   recalc_row_and_total parse R s =
     R (if strict_neq (row ''estimation'') (product parse row)
        then s\<lparr>target := Some (row(''estimation'' := JNumber (product parse row))),
               events := events s @ [Set_value ''estimation'' (JNumber (product parse row))]\<rparr>
        else s)"
  by (simp add: recalc_row_and_total_def product_def set_value_def Let_def)

lemma not_strict_neq: "\<not> strict_neq v x \<Longrightarrow> v = JNumber x"
  by (simp add: strict_neq_def)

lemma or_zero_Fin: "or_zero (Fin a) = Fin a"
  by (simp add: or_zero_def)

lemma flt_missing: "\<not> truthy v \<Longrightarrow> or_zero (flt parse v) = Fin 0"
  by (cases v) (auto simp: flt_def or_zero_def split: list.splits)

lemma flt_no_number:
  "(\<forall>n. v \<noteq> JNumber n) \<Longrightarrow> parse v = NaN \<Longrightarrow> or_zero (flt parse v) = Fin 0"
  by (cases v) (auto simp: flt_def or_zero_def split: list.splits)

lemma flt_text: "t \<noteq> [] \<Longrightarrow> parse (JStr t) = Fin a \<Longrightarrow> or_zero (flt parse (JStr t)) = Fin a"
  by (cases t) (simp_all add: flt_def or_zero_def)

text \<open>
  C1, as amended.  On a change of \<open>qte\<close> or \<open>pu\<close> of a row, \<open>recalc_row_and_total\<close>
  leaves the row's \<open>estimation\<close> equal to the product, and \<open>compute\<close> does so whenever the
  product is not negative; when it is negative (or \<open>NaN\<close>) \<open>compute\<close> changes nothing.
  The product is the one JavaScript computes on doubles: of two finite factors, their
  exact product rounded to the nearest double, which is the exact product itself when the
  factors are integers and it is below \<open>2 ^ 53\<close> in absolute value.  A numeric field
  counts as its number, a text as the number the host reads in it, and a field that is
  missing, falsy or a text the host reads no number in as \<open>0\<close>.
\<close>

theorem estimation_is_product:
  assumes "target s = Some row"
  shows "(not_negative (product parse row) \<longrightarrow>
            target (compute parse s)
              = Some (row(''estimation'' := JNumber (product parse row))))
       \<and> (\<not> not_negative (product parse row) \<longrightarrow> compute parse s = s)
       \<and> (\<exists>s'. recalc_row_and_total parse recalc_total s = recalc_total s'
               \<and> target s' = Some (row(''estimation'' := JNumber (product parse row))))
       \<and> (\<forall>a b. or_zero (flt parse (row ''qte'')) = Fin a
                 \<and> or_zero (flt parse (row ''pu'')) = Fin b \<longrightarrow>
               product parse row = rnd (a * b))
       \<and> (\<forall>i j. row ''qte'' = JNum (of_int i) \<and> row ''pu'' = JNum (of_int j)
                 \<and> \<bar>i * j\<bar> < 2 ^ 53 \<longrightarrow>
               product parse row = Fin (of_int (i * j)))
       \<and> (\<forall>f \<in> {''qte'', ''pu''}. \<forall>a. row f = JNum a \<longrightarrow> or_zero (flt parse (row f)) = Fin a)
       \<and> (\<forall>f \<in> {''qte'', ''pu''}. \<forall>t a. row f = JStr t \<and> t \<noteq> [] \<and> parse (row f) = Fin a \<longrightarrow>
               or_zero (flt parse (row f)) = Fin a)
       \<and> (\<forall>f \<in> {''qte'', ''pu''}.
             \<not> truthy (row f) \<or> ((\<forall>n. row f \<noteq> JNumber n) \<and> parse (row f) = NaN) \<longrightarrow>
               or_zero (flt parse (row f)) = Fin 0)"
proof (intro conjI)
  show "not_negative (product parse row) \<longrightarrow>
          target (compute parse s) = Some (row(''estimation'' := JNumber (product parse row)))"
    using assms by (auto simp: compute_eq fun_upd_idem dest: not_strict_neq)
  show "\<not> not_negative (product parse row) \<longrightarrow> compute parse s = s"
    using assms by (simp add: compute_eq)
  show "\<exists>s'. recalc_row_and_total parse recalc_total s = recalc_total s'
          \<and> target s' = Some (row(''estimation'' := JNumber (product parse row)))"
  proof -
    let ?s' = "if strict_neq (row ''estimation'') (product parse row)
        then s\<lparr>target := Some (row(''estimation'' := JNumber (product parse row))),
               events := events s @ [Set_value ''estimation'' (JNumber (product parse row))]\<rparr>
        else s"
    have "recalc_row_and_total parse recalc_total s = recalc_total ?s'"
      using assms by (rule recalc_eq)
    moreover have "target ?s' = Some (row(''estimation'' := JNumber (product parse row)))"
      using assms by (auto simp: fun_upd_idem dest: not_strict_neq)
    ultimately show ?thesis by blast
  qed
  show "\<forall>a b. or_zero (flt parse (row ''qte'')) = Fin a
                 \<and> or_zero (flt parse (row ''pu'')) = Fin b \<longrightarrow>
               product parse row = rnd (a * b)"
    by (simp add: product_def)
  show "\<forall>i j. row ''qte'' = JNum (of_int i) \<and> row ''pu'' = JNum (of_int j)
                 \<and> \<bar>i * j\<bar> < 2 ^ 53 \<longrightarrow>
               product parse row = Fin (of_int (i * j))"
  proof (intro allI impI)
    fix i j :: int
    assume a: "row ''qte'' = JNum (of_int i) \<and> row ''pu'' = JNum (of_int j)
                 \<and> \<bar>i * j\<bar> < 2 ^ 53"
    then have "product parse row = rnd (of_int (i * j))"
      by (simp add: product_def flt_def or_zero_Fin)
    with a show "product parse row = Fin (of_int (i * j))"
      by (simp only: rnd_int)
  qed
  show "\<forall>f \<in> {''qte'', ''pu''}. \<forall>a. row f = JNum a \<longrightarrow> or_zero (flt parse (row f)) = Fin a"
    by (simp add: flt_def or_zero_Fin)
  show "\<forall>f \<in> {''qte'', ''pu''}. \<forall>t a. row f = JStr t \<and> t \<noteq> [] \<and> parse (row f) = Fin a \<longrightarrow>
               or_zero (flt parse (row f)) = Fin a"
    using flt_text [of _ parse] by auto
  show "\<forall>f \<in> {''qte'', ''pu''}.
             \<not> truthy (row f) \<or> ((\<forall>n. row f \<noteq> JNumber n) \<and> parse (row f) = NaN) \<longrightarrow>
               or_zero (flt parse (row f)) = Fin 0"
    using flt_no_number [of _ parse] flt_missing [of _ parse] by auto
qed


lemma sample_products:
  "product no_number (empty_doc(''qte'' := JNum 3, ''pu'' := JNum 10)) = Fin 30"
  "product no_number (empty_doc(''qte'' := JNum 3, ''pu'' := JNum 10,
                                ''estimation'' := JNum 30)) = Fin 30"
  "product no_number (empty_doc(''qte'' := JNum 4, ''pu'' := JNum 10,
                                ''estimation'' := JNum 30)) = Fin 40"
  "product no_number (empty_doc(''pu'' := JNum 10)) = Fin 0"
  "product reads_three (empty_doc(''qte'' := JStr ''3'', ''pu'' := JNum 10)) = Fin 30"
  "product reads_three (empty_doc(''qte'' := JStr ''abc'', ''pu'' := JNum 10)) = Fin 0"
  "product no_number (empty_doc(''qte'' := JNum (- 3), ''pu'' := JNum 10)) = Fin (- 30)"
  "product no_number (empty_doc(''qte'' := JNum (- 3), ''pu'' := JNum 10,
                                ''estimation'' := JNum 0)) = Fin (- 30)"
  "product no_number (empty_doc(''qte'' := JNum 94906267, ''pu'' := JNum 94906267))
     = Fin 9007199515875288"
  "product no_number (empty_doc(''qte'' := JNum 3,
                                ''pu'' := JNum (3602879701896397 / 36028797018963968),
                                ''estimation'' := JNum (1351079888211149 / 4503599627370496)))
     = Fin (1351079888211149 / 4503599627370496)"
  by (simp_all add: product_def flt_def or_zero_def reads_three_def rnd_sq rnd_tenth)


text \<open>
  Quantity 3 at price 10 gives the estimation 30; quantity 4 at price 10 then gives 40, by
  either handler; a missing quantity gives 0, the text \<open>3\<close> gives 30 and the text
  \<open>abc\<close> gives 0; with quantity \<open>-3\<close>, \<open>compute\<close> does nothing.
\<close>

theorem estimation_is_product_witness:
  "target (compute no_number
             \<lparr>target = Some (empty_doc(''qte'' := JNum 3, ''pu'' := JNum 10)), events = []\<rparr>)
     = Some (empty_doc(''qte'' := JNum 3, ''pu'' := JNum 10, ''estimation'' := JNum 30))
   \<and> target (compute no_number
               \<lparr>target = Some (empty_doc(''qte'' := JNum 4, ''pu'' := JNum 10,
                                         ''estimation'' := JNum 30)), events = []\<rparr>)
       = Some (empty_doc(''qte'' := JNum 4, ''pu'' := JNum 10, ''estimation'' := JNum 40))
   \<and> target (snd (recalc_row_and_total no_number (Pair None)
               \<lparr>target = Some (empty_doc(''qte'' := JNum 4, ''pu'' := JNum 10,
                                         ''estimation'' := JNum 30)), events = []\<rparr>))
       = Some (empty_doc(''qte'' := JNum 4, ''pu'' := JNum 10, ''estimation'' := JNum 40))
   \<and> target (compute no_number \<lparr>target = Some (empty_doc(''pu'' := JNum 10)), events = []\<rparr>)
       = Some (empty_doc(''pu'' := JNum 10, ''estimation'' := JNum 0))
   \<and> target (compute reads_three
               \<lparr>target = Some (empty_doc(''qte'' := JStr ''3'', ''pu'' := JNum 10)), events = []\<rparr>)
       = Some (empty_doc(''qte'' := JStr ''3'', ''pu'' := JNum 10, ''estimation'' := JNum 30))
   \<and> target (compute reads_three
               \<lparr>target = Some (empty_doc(''qte'' := JStr ''abc'', ''pu'' := JNum 10)),
                events = []\<rparr>)
       = Some (empty_doc(''qte'' := JStr ''abc'', ''pu'' := JNum 10, ''estimation'' := JNum 0))
   \<and> compute no_number
         \<lparr>target = Some (empty_doc(''qte'' := JNum (- 3), ''pu'' := JNum 10)), events = []\<rparr>
       = \<lparr>target = Some (empty_doc(''qte'' := JNum (- 3), ''pu'' := JNum 10)), events = []\<rparr>"
proof -
  let ?r0 = "empty_doc(''pu'' := JNum 10)"
  let ?rn = "empty_doc(''qte'' := JNum (- 3), ''pu'' := JNum 10)"
  let ?r3 = "empty_doc(''qte'' := JNum 3, ''pu'' := JNum 10)"
  let ?r4 = "empty_doc(''qte'' := JNum 4, ''pu'' := JNum 10, ''estimation'' := JNum 30)"
  have a: "target (compute no_number \<lparr>target = Some ?r3, events = []\<rparr>)
             = Some (?r3(''estimation'' := JNum 30))"
    using estimation_is_product [of "\<lparr>target = Some ?r3, events = []\<rparr>" ?r3 no_number
        "Pair None", THEN conjunct1]
    by (simp add: sample_products not_negative_def)
  have b: "target (compute no_number \<lparr>target = Some ?r4, events = []\<rparr>)
             = Some (?r4(''estimation'' := JNum 40))"
    using estimation_is_product [of "\<lparr>target = Some ?r4, events = []\<rparr>" ?r4 no_number
        "Pair None", THEN conjunct1]
    by (simp add: sample_products not_negative_def)
  have c: "target (snd (recalc_row_and_total no_number (Pair None)
                          \<lparr>target = Some ?r4, events = []\<rparr>))
             = Some (?r4(''estimation'' := JNum 40))"
    using estimation_is_product [of "\<lparr>target = Some ?r4, events = []\<rparr>" ?r4 no_number
        "Pair None", THEN conjunct2, THEN conjunct2, THEN conjunct1]
    by (auto simp: sample_products)
  have d: "target (compute no_number \<lparr>target = Some ?r0, events = []\<rparr>)
             = Some (?r0(''estimation'' := JNum 0))"
    using estimation_is_product [of "\<lparr>target = Some ?r0, events = []\<rparr>" ?r0 no_number
        "Pair None", THEN conjunct1]
    by (simp add: sample_products not_negative_def)
  let ?rt = "empty_doc(''qte'' := JStr ''3'', ''pu'' := JNum 10)"
  let ?ru = "empty_doc(''qte'' := JStr ''abc'', ''pu'' := JNum 10)"
  have f: "target (compute reads_three \<lparr>target = Some ?rt, events = []\<rparr>)
             = Some (?rt(''estimation'' := JNum 30))"
    using estimation_is_product [of "\<lparr>target = Some ?rt, events = []\<rparr>" ?rt reads_three
        "Pair None", THEN conjunct1]
    by (simp add: sample_products not_negative_def)
  have g: "target (compute reads_three \<lparr>target = Some ?ru, events = []\<rparr>)
             = Some (?ru(''estimation'' := JNum 0))"
    using estimation_is_product [of "\<lparr>target = Some ?ru, events = []\<rparr>" ?ru reads_three
        "Pair None", THEN conjunct1]
    by (simp add: sample_products not_negative_def)
  have e: "compute no_number \<lparr>target = Some ?rn, events = []\<rparr>
             = \<lparr>target = Some ?rn, events = []\<rparr>"
    using estimation_is_product [of "\<lparr>target = Some ?rn, events = []\<rparr>" ?rn no_number
        "Pair None", THEN conjunct2, THEN conjunct1]
    by (simp add: sample_products not_negative_def)
  from a b c d e f g show ?thesis by simp
qed

text \<open>
  C1 as stated fails.  With quantity \<open>-3\<close> and price 10 the product is \<open>-30\<close>, and
  \<open>compute\<close> leaves the estimation 0.  With quantity and price 94906267 the estimation
  stored is 9007199515875288, the double nearest to the exact product 9007199515875289.
\<close>

theorem negative_product_not_stored:
  "field (compute no_number
            \<lparr>target = Some (empty_doc(''qte'' := JNum (- 3), ''pu'' := JNum 10,
                                      ''estimation'' := JNum 0)), events = []\<rparr>) ''estimation''
     = JNum 0
   \<and> product no_number (empty_doc(''qte'' := JNum (- 3), ''pu'' := JNum 10,
                                  ''estimation'' := JNum 0)) = Fin (- 30)
   \<and> field (snd (recalc_row_and_total no_number (Pair None)
            \<lparr>target = Some (empty_doc(''qte'' := JNum 94906267, ''pu'' := JNum 94906267)),
             events = []\<rparr>)) ''estimation''
     = JNum 9007199515875288
   \<and> (94906267 * 94906267 :: rat) = 9007199515875289"
proof -
  let ?rn = "empty_doc(''qte'' := JNum (- 3), ''pu'' := JNum 10, ''estimation'' := JNum 0)"
  let ?rb = "empty_doc(''qte'' := JNum 94906267, ''pu'' := JNum 94906267)"
  have "field (compute no_number \<lparr>target = Some ?rn, events = []\<rparr>) ''estimation'' = JNum 0"
    using compute_eq [of "\<lparr>target = Some ?rn, events = []\<rparr>" ?rn no_number]
    by (simp add: sample_products not_negative_def field_def)
  moreover have "field (snd (recalc_row_and_total no_number (Pair None)
                               \<lparr>target = Some ?rb, events = []\<rparr>)) ''estimation''
                   = JNum 9007199515875288"
    using recalc_eq [of "\<lparr>target = Some ?rb, events = []\<rparr>" ?rb no_number "Pair None"]
    by (simp add: sample_products strict_neq_def field_def)
  ultimately show ?thesis by (simp add: sample_products)
qed

text \<open>
  C4, as amended.  \<open>recalc_row_and_total\<close> calls \<open>set_value\<close> for \<open>estimation\<close> once
  if the product, as computed on doubles, is not (\<open>!==\<close>) the stored value, and not at all
  otherwise; \<open>compute\<close> does so if the product is not the stored value and is not
  negative, and not at all otherwise.  A product other than \<open>NaN\<close> is not the stored
  value exactly when the stored value is not that number; \<open>NaN\<close> is not any value.
\<close>

theorem write_iff_differs:
  assumes "target s = Some row"
  shows "events (compute parse s) =
           (if not_negative (product parse row)
               \<and> strict_neq (row ''estimation'') (product parse row)
            then events s @ [Set_value ''estimation'' (JNumber (product parse row))]
            else events s)
       \<and> (\<exists>s'. recalc_row_and_total parse recalc_total s = recalc_total s'
               \<and> events s' =
                   (if strict_neq (row ''estimation'') (product parse row)
                    then events s @ [Set_value ''estimation'' (JNumber (product parse row))]
                    else events s))
       \<and> (product parse row \<noteq> NaN \<longrightarrow>
             strict_neq (row ''estimation'') (product parse row)
               = (row ''estimation'' \<noteq> JNumber (product parse row)))
       \<and> (product parse row = NaN \<longrightarrow> strict_neq (row ''estimation'') (product parse row))"
proof (intro conjI)
  show "events (compute parse s) =
           (if not_negative (product parse row)
               \<and> strict_neq (row ''estimation'') (product parse row)
            then events s @ [Set_value ''estimation'' (JNumber (product parse row))]
            else events s)"
    using assms by (simp add: compute_eq)
  let ?s' = "if strict_neq (row ''estimation'') (product parse row)
        then s\<lparr>target := Some (row(''estimation'' := JNumber (product parse row))),
               events := events s @ [Set_value ''estimation'' (JNumber (product parse row))]\<rparr>
        else s"
  have "recalc_row_and_total parse recalc_total s = recalc_total ?s'"
    using assms by (rule recalc_eq)
  moreover have "events ?s' =
                   (if strict_neq (row ''estimation'') (product parse row)
                    then events s @ [Set_value ''estimation'' (JNumber (product parse row))]
                    else events s)"
    by simp
  ultimately show "\<exists>s'. recalc_row_and_total parse recalc_total s = recalc_total s'
               \<and> events s' =
                   (if strict_neq (row ''estimation'') (product parse row)
                    then events s @ [Set_value ''estimation'' (JNumber (product parse row))]
                    else events s)"
    by blast
  show "product parse row \<noteq> NaN \<longrightarrow>
             strict_neq (row ''estimation'') (product parse row)
               = (row ''estimation'' \<noteq> JNumber (product parse row))"
    by (simp add: strict_neq_def)
  show "product parse row = NaN \<longrightarrow> strict_neq (row ''estimation'') (product parse row)"
    by (simp add: strict_neq_def)
qed

text \<open>
  With either handler a first change writes 30 once, and a row that already holds 30 is
  not written again; nor is a row with quantity 3, price 0.1 and the estimation
  0.30000000000000004, these being the doubles \<open>3602879701896397 / 2 ^ 55\<close> and
  \<open>1351079888211149 / 2 ^ 52\<close>.
\<close>

theorem write_iff_differs_witness:
  "events (compute no_number
             \<lparr>target = Some (empty_doc(''qte'' := JNum 3, ''pu'' := JNum 10)), events = []\<rparr>)
     = [Set_value ''estimation'' (JNum 30)]
   \<and> events (compute no_number
               \<lparr>target = Some (empty_doc(''qte'' := JNum 3, ''pu'' := JNum 10,
                                         ''estimation'' := JNum 30)), events = []\<rparr>)
       = []
   \<and> events (snd (recalc_row_and_total no_number (Pair None)
               \<lparr>target = Some (empty_doc(''qte'' := JNum 3, ''pu'' := JNum 10)), events = []\<rparr>))
       = [Set_value ''estimation'' (JNum 30)]
   \<and> events (snd (recalc_row_and_total no_number (Pair None)
               \<lparr>target = Some (empty_doc(''qte'' := JNum 3, ''pu'' := JNum 10,
                                         ''estimation'' := JNum 30)), events = []\<rparr>))
       = []
   \<and> events (compute no_number
               \<lparr>target = Some (empty_doc(''qte'' := JNum 3,
                    ''pu'' := JNum (3602879701896397 / 36028797018963968),
                    ''estimation'' := JNum (1351079888211149 / 4503599627370496))),
                events = []\<rparr>)
       = []
   \<and> events (snd (recalc_row_and_total no_number (Pair None)
               \<lparr>target = Some (empty_doc(''qte'' := JNum 3,
                    ''pu'' := JNum (3602879701896397 / 36028797018963968),
                    ''estimation'' := JNum (1351079888211149 / 4503599627370496))),
                events = []\<rparr>))
       = []"
proof -
  let ?r = "empty_doc(''qte'' := JNum 3, ''pu'' := JNum 10)"
  let ?r' = "empty_doc(''qte'' := JNum 3, ''pu'' := JNum 10, ''estimation'' := JNum 30)"
  let ?t = "empty_doc(''qte'' := JNum 3, ''pu'' := JNum (3602879701896397 / 36028797018963968),
                      ''estimation'' := JNum (1351079888211149 / 4503599627370496))"
  have a: "events (compute no_number \<lparr>target = Some ?r, events = []\<rparr>)
             = [Set_value ''estimation'' (JNum 30)]"
    using write_iff_differs [of "\<lparr>target = Some ?r, events = []\<rparr>" ?r no_number
        "Pair None", THEN conjunct1]
    by (simp add: sample_products not_negative_def strict_neq_def)
  have b: "events (compute no_number \<lparr>target = Some ?r', events = []\<rparr>) = []"
    using write_iff_differs [of "\<lparr>target = Some ?r', events = []\<rparr>" ?r' no_number
        "Pair None", THEN conjunct1]
    by (simp add: sample_products not_negative_def strict_neq_def)
  have c: "events (snd (recalc_row_and_total no_number (Pair None)
                          \<lparr>target = Some ?r, events = []\<rparr>))
             = [Set_value ''estimation'' (JNum 30)]"
    using write_iff_differs [of "\<lparr>target = Some ?r, events = []\<rparr>" ?r no_number
        "Pair None", THEN conjunct2, THEN conjunct1]
    by (auto simp: sample_products strict_neq_def)
  have d: "events (snd (recalc_row_and_total no_number (Pair None)
                          \<lparr>target = Some ?r', events = []\<rparr>)) = []"
    using write_iff_differs [of "\<lparr>target = Some ?r', events = []\<rparr>" ?r' no_number
        "Pair None", THEN conjunct2, THEN conjunct1]
    by (auto simp: sample_products strict_neq_def)
  have e: "events (compute no_number \<lparr>target = Some ?t, events = []\<rparr>) = []"
    using write_iff_differs [of "\<lparr>target = Some ?t, events = []\<rparr>" ?t no_number
        "Pair None", THEN conjunct1]
    by (simp add: sample_products not_negative_def strict_neq_def)
  have f: "events (snd (recalc_row_and_total no_number (Pair None)
                          \<lparr>target = Some ?t, events = []\<rparr>)) = []"
    using write_iff_differs [of "\<lparr>target = Some ?t, events = []\<rparr>" ?t no_number
        "Pair None", THEN conjunct2, THEN conjunct1]
    by (auto simp: sample_products strict_neq_def)
  from a b c d e f show ?thesis by simp
qed

text \<open>
  C4 as stated fails for \<open>compute\<close>: the product \<open>-30\<close> differs from the stored 0, and
  nothing is written.
\<close>

theorem negative_product_not_written:
  "events (compute no_number
             \<lparr>target = Some (empty_doc(''qte'' := JNum (- 3), ''pu'' := JNum 10,
                                       ''estimation'' := JNum 0)), events = []\<rparr>) = []
   \<and> strict_neq
        ((empty_doc(''qte'' := JNum (- 3), ''pu'' := JNum 10, ''estimation'' := JNum 0))
           ''estimation'')
        (product no_number (empty_doc(''qte'' := JNum (- 3), ''pu'' := JNum 10,
                                      ''estimation'' := JNum 0)))"
  using compute_eq [of "\<lparr>target = Some (empty_doc(''qte'' := JNum (- 3), ''pu'' := JNum 10,
      ''estimation'' := JNum 0)), events = []\<rparr>"
      "empty_doc(''qte'' := JNum (- 3), ''pu'' := JNum 10, ''estimation'' := JNum 0)" no_number]
  by (simp add: sample_products not_negative_def strict_neq_def)

text \<open>
  C10.  Either handler leaves every field of its row other than \<open>estimation\<close> as it was,
  \<open>qte\<close> and \<open>pu\<close> among them, and every \<open>set_value\<close> it makes is for \<open>estimation\<close>.
\<close>

theorem only_estimation_written:
  assumes "target s = Some row"
  shows "(\<forall>f. f \<noteq> ''estimation'' \<longrightarrow> field (compute parse s) f = row f)
       \<and> (\<exists>new. events (compute parse s) = events s @ new
                 \<and> (\<forall>e \<in> set new. \<exists>v. e = Set_value ''estimation'' v))
       \<and> (\<exists>s'. recalc_row_and_total parse recalc_total s = recalc_total s'
               \<and> (\<forall>f. f \<noteq> ''estimation'' \<longrightarrow> field s' f = row f)
               \<and> (\<exists>new. events s' = events s @ new
                         \<and> (\<forall>e \<in> set new. \<exists>v. e = Set_value ''estimation'' v)))"
proof (intro conjI)
  show "\<forall>f. f \<noteq> ''estimation'' \<longrightarrow> field (compute parse s) f = row f"
    using assms by (simp add: compute_eq field_def)
  show "\<exists>new. events (compute parse s) = events s @ new
                 \<and> (\<forall>e \<in> set new. \<exists>v. e = Set_value ''estimation'' v)"
    using assms by (simp add: compute_eq)
  let ?s' = "if strict_neq (row ''estimation'') (product parse row)
        then s\<lparr>target := Some (row(''estimation'' := JNumber (product parse row))),
               events := events s @ [Set_value ''estimation'' (JNumber (product parse row))]\<rparr>
        else s"
  have "recalc_row_and_total parse recalc_total s = recalc_total ?s'"
    using assms by (rule recalc_eq)
  moreover have "\<forall>f. f \<noteq> ''estimation'' \<longrightarrow> field ?s' f = row f"
    using assms by (simp add: field_def)
  moreover have "\<exists>new. events ?s' = events s @ new
                         \<and> (\<forall>e \<in> set new. \<exists>v. e = Set_value ''estimation'' v)"
    by simp
  ultimately show "\<exists>s'. recalc_row_and_total parse recalc_total s = recalc_total s'
               \<and> (\<forall>f. f \<noteq> ''estimation'' \<longrightarrow> field s' f = row f)
               \<and> (\<exists>new. events s' = events s @ new
                         \<and> (\<forall>e \<in> set new. \<exists>v. e = Set_value ''estimation'' v))"
    by blast
qed

text \<open>After \<open>compute\<close> the row still has quantity 3 and price 10.\<close>

theorem only_estimation_written_witness:
  "field (compute no_number
            \<lparr>target = Some (empty_doc(''qte'' := JNum 3, ''pu'' := JNum 10)), events = []\<rparr>) ''qte''
     = JNum 3
   \<and> field (compute no_number
              \<lparr>target = Some (empty_doc(''qte'' := JNum 3, ''pu'' := JNum 10)), events = []\<rparr>) ''pu''
       = JNum 10"
proof -
  let ?r = "empty_doc(''qte'' := JNum 3, ''pu'' := JNum 10)"
  let ?s = "\<lparr>target = Some ?r, events = []\<rparr>"
  have h: "target ?s = Some ?r" by simp
  from only_estimation_written [OF h, of no_number "Pair None"]
  have "\<forall>f. f \<noteq> ''estimation'' \<longrightarrow> field (compute no_number ?s) f = ?r f"
    by blast
  then have "field (compute no_number ?s) ''qte'' = ?r ''qte''"
    and "field (compute no_number ?s) ''pu'' = ?r ''pu''"
    by simp_all
  then show ?thesis by simp
qed

section \<open>Properties of the sanitization guards\<close>

lemma js_or_truthy: "truthy (js_or a b) = (truthy a \<or> truthy b)"
  by (simp add: js_or_def)

lemma public_item_code_eq:
  "target s = Some d \<Longrightarrow>
   public_item_code str s =
     (None, if numeric_code str (d ''item_code'') \<and> truthy (d ''code_analytique'')
            then set_value ''item_code'' (d ''code_analytique'') s else s)"
  by (simp add: public_item_code_def js_or_def Let_def)

lemma receipt_validate_eq:
  "target s = Some d \<Longrightarrow>
   receipt_validate str s =
     (None, if numeric_code str (d ''item_code'') \<and> truthy (d ''code_analytique'')
            then set_value ''item_code'' (d ''code_analytique'') s else s)"
  by (simp add: receipt_validate_def js_or_def Let_def)

lemma receipt_item_code_eq:
  "target s = Some d \<Longrightarrow>
   receipt_item_code str s =
     (None, if numeric_code str (d ''item_code'')
            then show_alert ''Invalid item code corrected'' ''orange''
                   (if truthy (d ''code_analytique'')
                    then set_value ''item_code'' (d ''code_analytique'') s else s)
            else s)"
  by (simp add: receipt_item_code_def js_or_def Let_def)

lemma custom_item_code_eq:
  "target s = Some d \<Longrightarrow>
   custom_item_code str s =
     (None, if numeric_code str (d ''item_code'')
            then show_alert ''Invalid item code replaced with placeholder'' ''orange''
                   (set_value ''item_code'' (JStr ''BUDGET-LINE'') s)
            else s)"
  by (simp add: custom_item_code_def)

lemma target_set_value:
  "target (set_value f v s) = map_option (\<lambda>d. d(f := v)) (target s)"
  by (simp add: set_value_def)

lemma target_show_alert: "target (show_alert m i s) = target s"
  by (simp add: show_alert_def)

lemma not_digits_prefix: "all_digits c \<Longrightarrow> \<not> startsWith c ''BUDGET-LINE''"
  by (cases c) (auto simp: all_digits_def startsWith_def is_digit_def)

text \<open>
  C2, as amended.  For a row whose \<open>item_code\<close> is purely numeric, the guard of
  \<open>sdrt/public/js/purchase_receipt.js\<close> replaces \<open>item_code\<close> with \<open>code_analytique\<close>
  when that fallback is present (truthy) and leaves the row untouched when it is not; a
  row whose \<open>item_code\<close> is not purely numeric is left unchanged.  The guard of
  \<open>sdrt/sdrt/custom/purchase_receipt.js\<close> replaces a purely numeric \<open>item_code\<close> with
  the placeholder \<open>BUDGET-LINE\<close>, whether a fallback exists or not, and leaves any other
  row unchanged.  For a string, purely numeric means \<open>/^\d+$/\<close>.
\<close>

theorem numeric_code_replaced:
  assumes "target s = Some d"
  shows "(numeric_code str (d ''item_code'') \<and> truthy (d ''code_analytique'') \<longrightarrow>
            target (snd (public_item_code str s))
              = Some (d(''item_code'' := d ''code_analytique'')))
       \<and> (numeric_code str (d ''item_code'') \<and> \<not> truthy (d ''code_analytique'') \<longrightarrow>
            snd (public_item_code str s) = s)
       \<and> (\<not> numeric_code str (d ''item_code'') \<longrightarrow> snd (public_item_code str s) = s)
       \<and> (numeric_code str (d ''item_code'') \<longrightarrow>
            target (snd (custom_item_code str s))
              = Some (d(''item_code'' := JStr ''BUDGET-LINE'')))
       \<and> (\<not> numeric_code str (d ''item_code'') \<longrightarrow> snd (custom_item_code str s) = s)
       \<and> (\<forall>c. d ''item_code'' = JStr c \<longrightarrow> numeric_code str (d ''item_code'') = all_digits c)"
  using assms
  by (auto simp: public_item_code_eq custom_item_code_eq target_set_value target_show_alert
      numeric_code_def js_String_def all_digits_def)

text \<open>
  In the first script the code \<open>1\<close> becomes \<open>BUD-1\<close> when that is the fallback, stays
  without a fallback, and the code \<open>A1\<close> stays; in the second the code \<open>1\<close> becomes
  \<open>BUDGET-LINE\<close> and the code \<open>A1\<close> stays.
\<close>

theorem numeric_code_replaced_witness:
  "target (snd (public_item_code no_text
       \<lparr>target = Some (empty_doc(''item_code'' := JStr ''1'', ''code_analytique'' := JStr ''BUD-1'')),
        events = []\<rparr>))
     = Some (empty_doc(''item_code'' := JStr ''BUD-1'', ''code_analytique'' := JStr ''BUD-1''))
   \<and> snd (public_item_code no_text
            \<lparr>target = Some (empty_doc(''item_code'' := JStr ''1'')), events = []\<rparr>)
       = \<lparr>target = Some (empty_doc(''item_code'' := JStr ''1'')), events = []\<rparr>
   \<and> snd (public_item_code no_text
            \<lparr>target = Some (empty_doc(''item_code'' := JStr ''A1'',
                                      ''code_analytique'' := JStr ''BUD-1'')), events = []\<rparr>)
       = \<lparr>target = Some (empty_doc(''item_code'' := JStr ''A1'',
                                    ''code_analytique'' := JStr ''BUD-1'')), events = []\<rparr>
   \<and> target (snd (custom_item_code no_text
            \<lparr>target = Some (empty_doc(''item_code'' := JStr ''1'')), events = []\<rparr>))
       = Some (empty_doc(''item_code'' := JStr ''BUDGET-LINE''))
   \<and> snd (custom_item_code no_text
            \<lparr>target = Some (empty_doc(''item_code'' := JStr ''A1'')), events = []\<rparr>)
       = \<lparr>target = Some (empty_doc(''item_code'' := JStr ''A1'')), events = []\<rparr>"
proof -
  let ?a = "empty_doc(''item_code'' := JStr ''1'', ''code_analytique'' := JStr ''BUD-1'')"
  let ?e = "empty_doc(''item_code'' := JStr ''A1'')"
  let ?b = "empty_doc(''item_code'' := JStr ''1'')"
  let ?c = "empty_doc(''item_code'' := JStr ''A1'', ''code_analytique'' := JStr ''BUD-1'')"
  have n1: "numeric_code no_text (JStr ''1'')" and n2: "\<not> numeric_code no_text (JStr ''A1'')"
    by (simp_all add: numeric_code_def js_String_def all_digits_def is_digit_def)
  have "target (snd (public_item_code no_text \<lparr>target = Some ?a, events = []\<rparr>))
          = Some (?a(''item_code'' := ?a ''code_analytique''))"
    using numeric_code_replaced [of "\<lparr>target = Some ?a, events = []\<rparr>" ?a no_text] n1
    by simp
  moreover have "snd (public_item_code no_text \<lparr>target = Some ?b, events = []\<rparr>)
          = \<lparr>target = Some ?b, events = []\<rparr>"
    using numeric_code_replaced [of "\<lparr>target = Some ?b, events = []\<rparr>" ?b no_text] n1
    by simp
  moreover have "snd (public_item_code no_text \<lparr>target = Some ?c, events = []\<rparr>)
          = \<lparr>target = Some ?c, events = []\<rparr>"
    using numeric_code_replaced [of "\<lparr>target = Some ?c, events = []\<rparr>" ?c no_text] n2
    by simp
  moreover have "target (snd (custom_item_code no_text \<lparr>target = Some ?b, events = []\<rparr>))
          = Some (?b(''item_code'' := JStr ''BUDGET-LINE''))"
    using numeric_code_replaced [of "\<lparr>target = Some ?b, events = []\<rparr>" ?b no_text] n1
    by simp
  moreover have "snd (custom_item_code no_text \<lparr>target = Some ?e, events = []\<rparr>)
          = \<lparr>target = Some ?e, events = []\<rparr>"
    using numeric_code_replaced [of "\<lparr>target = Some ?e, events = []\<rparr>" ?e no_text] n2
    by simp
  ultimately show ?thesis
    by (simp add: fun_upd_twist)
qed

text \<open>
  C2 as stated fails for the guard of \<open>sdrt/sdrt/custom/purchase_receipt.js\<close>: the code
  \<open>1\<close> becomes \<open>BUDGET-LINE\<close>, with the fallback \<open>BUD-1\<close> and without any.
\<close>

theorem placeholder_not_fallback:
  "field (snd (custom_item_code no_text
       \<lparr>target = Some (empty_doc(''item_code'' := JStr ''1'', ''code_analytique'' := JStr ''BUD-1'')),
        events = []\<rparr>)) ''item_code''
     = JStr ''BUDGET-LINE''
   \<and> field (snd (custom_item_code no_text
          \<lparr>target = Some (empty_doc(''item_code'' := JStr ''1'')), events = []\<rparr>)) ''item_code''
       = JStr ''BUDGET-LINE''"
  by (simp add: custom_item_code_def numeric_code_def js_String_def all_digits_def is_digit_def
      set_value_def show_alert_def field_def)


lemma custom_validate_eq:
  assumes "target s = Some d" and "fst (custom_validate str s) = None"
  shows "custom_validate str s =
     (None, if numeric_code str (d ''item_code'')
            then set_value ''item_code'' (JStr ''BUDGET-LINE'') s else s)"
proof (cases "truthy (d ''item_code'')")
  case False
  with assms show ?thesis by (simp add: custom_validate_def numeric_code_def)
next
  case True
  with assms obtain c where c: "as_string str (d ''item_code'') = Some c"
    by (auto simp: custom_validate_def split: option.splits)
  then have "js_String str (d ''item_code'') = c"
    by (auto simp: as_string_def js_String_def split: jsval.splits)
  with assms True c show ?thesis
    using not_digits_prefix [of c]
    by (auto simp: custom_validate_def numeric_code_def)
qed

lemma before_save_item_eq:
  "before_save_item str d =
     (if numeric_code str (d ''item_code'') \<and> truthy (d ''code_analytique'')
      then \<lparr>target = Some (d(''item_code'' := d ''code_analytique'')),
            events = [Set_value ''item_code'' (d ''code_analytique'')]\<rparr>
      else \<lparr>target = Some d, events = []\<rparr>)"
  by (simp add: before_save_item_def set_value_def Let_def)

text \<open>
  C5, as amended.  In the Purchase Receipt script that has all three points, the guard at
  the field change, at \<open>validate\<close> and at \<open>before_save\<close> leave the same row, so the same
  \<open>item_code\<close>.  The two copies of \<open>sdrt/sdrt/custom/purchase_receipt.js\<close> (field change
  and \<open>validate\<close>) leave the same row as each other whenever \<open>validate\<close> does not throw,
  and what they write for a purely numeric code is the placeholder \<open>BUDGET-LINE\<close>, not
  \<open>code_analytique\<close>.
\<close>

theorem lifecycle_points_agree:
  assumes "i < length its"
  shows "target (snd (receipt_item_code str \<lparr>target = Some (its ! i), events = ev\<rparr>))
           = target (before_save str (Some its) ! i)
       \<and> target (snd (receipt_validate str \<lparr>target = Some (its ! i), events = ev\<rparr>))
           = target (before_save str (Some its) ! i)
       \<and> (fst (custom_validate str \<lparr>target = Some (its ! i), events = ev\<rparr>) = None \<longrightarrow>
            target (snd (custom_validate str \<lparr>target = Some (its ! i), events = ev\<rparr>))
              = target (snd (custom_item_code str \<lparr>target = Some (its ! i), events = ev\<rparr>)))
       \<and> (numeric_code str ((its ! i) ''item_code'') \<longrightarrow>
            field (snd (custom_item_code str \<lparr>target = Some (its ! i), events = ev\<rparr>))
              ''item_code'' = JStr ''BUDGET-LINE'')"
proof (intro conjI)
  let ?s = "\<lparr>target = Some (its ! i), events = ev\<rparr>"
  have t: "target ?s = Some (its ! i)" by simp
  have b: "before_save str (Some its) ! i = before_save_item str (its ! i)"
    using assms by (simp add: before_save_def)
  show "target (snd (receipt_item_code str ?s)) = target (before_save str (Some its) ! i)"
    by (simp add: b receipt_item_code_eq [OF t] before_save_item_eq target_set_value
        target_show_alert)
  show "target (snd (receipt_validate str ?s)) = target (before_save str (Some its) ! i)"
    by (simp add: b receipt_validate_eq [OF t] before_save_item_eq target_set_value)
  show "fst (custom_validate str ?s) = None \<longrightarrow>
          target (snd (custom_validate str ?s)) = target (snd (custom_item_code str ?s))"
  proof
    assume ok: "fst (custom_validate str ?s) = None"
    show "target (snd (custom_validate str ?s)) = target (snd (custom_item_code str ?s))"
      by (simp add: custom_validate_eq [OF t ok] custom_item_code_eq [OF t] target_set_value
          target_show_alert)
  qed
  show "numeric_code str ((its ! i) ''item_code'') \<longrightarrow>
          field (snd (custom_item_code str ?s)) ''item_code'' = JStr ''BUDGET-LINE''"
    by (simp add: custom_item_code_eq [OF t] field_def target_set_value target_show_alert)
qed

text \<open>
  The code \<open>1\<close> with the fallback \<open>BUD-1\<close> becomes \<open>BUD-1\<close> at each of the three points
  of the one script; the two copies of the other script agree on \<open>BUDGET-LINE\<close>.
\<close>

theorem lifecycle_points_agree_witness:
  "target (snd (receipt_item_code no_text
       \<lparr>target = Some (empty_doc(''item_code'' := JStr ''1'', ''code_analytique'' := JStr ''BUD-1'')),
        events = []\<rparr>))
     = Some (empty_doc(''item_code'' := JStr ''BUD-1'', ''code_analytique'' := JStr ''BUD-1''))
   \<and> target (snd (receipt_validate no_text
       \<lparr>target = Some (empty_doc(''item_code'' := JStr ''1'', ''code_analytique'' := JStr ''BUD-1'')),
        events = []\<rparr>))
     = Some (empty_doc(''item_code'' := JStr ''BUD-1'', ''code_analytique'' := JStr ''BUD-1''))
   \<and> target (before_save no_text
         (Some [empty_doc(''item_code'' := JStr ''1'', ''code_analytique'' := JStr ''BUD-1'')]) ! 0)
     = Some (empty_doc(''item_code'' := JStr ''BUD-1'', ''code_analytique'' := JStr ''BUD-1''))
   \<and> target (snd (custom_validate no_text
       \<lparr>target = Some (empty_doc(''item_code'' := JStr ''1'', ''code_analytique'' := JStr ''BUD-1'')),
        events = []\<rparr>))
     = target (snd (custom_item_code no_text
       \<lparr>target = Some (empty_doc(''item_code'' := JStr ''1'', ''code_analytique'' := JStr ''BUD-1'')),
        events = []\<rparr>))
   \<and> field (snd (custom_item_code no_text
       \<lparr>target = Some (empty_doc(''item_code'' := JStr ''1'', ''code_analytique'' := JStr ''BUD-1'')),
        events = []\<rparr>)) ''item_code''
     = JStr ''BUDGET-LINE''"
proof -
  let ?r = "empty_doc(''item_code'' := JStr ''1'', ''code_analytique'' := JStr ''BUD-1'')"
  have n1: "numeric_code no_text (JStr ''1'')"
    by (simp add: numeric_code_def js_String_def all_digits_def is_digit_def)
  have b: "target (before_save no_text (Some [?r]) ! 0)
             = Some (empty_doc(''item_code'' := JStr ''BUD-1'', ''code_analytique'' := JStr ''BUD-1''))"
    using n1 by (simp add: before_save_def before_save_item_eq fun_upd_twist)
  have v: "fst (custom_validate no_text \<lparr>target = Some ?r, events = []\<rparr>) = None"
    by (simp add: custom_validate_def as_string_def)
  have h: "(0::nat) < length [?r]" by simp
  from lifecycle_points_agree [OF h, of no_text "[]"] b n1 v show ?thesis
    by simp
qed

text \<open>
  C5 as stated fails: on the code \<open>1\<close> with the fallback \<open>BUD-1\<close>, the field-change copy
  of \<open>sdrt/sdrt/custom/purchase_receipt.js\<close> and the \<open>before_save\<close> copy end with
  different codes.
\<close>

theorem placeholder_differs_from_pre_save:
  "field (snd (custom_item_code no_text
       \<lparr>target = Some (empty_doc(''item_code'' := JStr ''1'', ''code_analytique'' := JStr ''BUD-1'')),
        events = []\<rparr>)) ''item_code''
     \<noteq> field (before_save no_text
          (Some [empty_doc(''item_code'' := JStr ''1'', ''code_analytique'' := JStr ''BUD-1'')]) ! 0)
         ''item_code''"
  by (simp add: custom_item_code_def before_save_def before_save_item_def numeric_code_def
      js_String_def all_digits_def is_digit_def set_value_def show_alert_def field_def)

text \<open>
  C7 at the row with the code \<open>1\<close> and no \<open>code_analytique\<close>: the field-change handler of
  the Purchase Receipt script that has \<open>before_save\<close> writes nothing, and shows the
  notice \<open>Invalid item code corrected\<close>.
\<close>

theorem notice_without_correction:
  "receipt_item_code no_text
     \<lparr>target = Some (empty_doc(''item_code'' := JStr ''1'')), events = []\<rparr>
   = (None, \<lparr>target = Some (empty_doc(''item_code'' := JStr ''1'')),
             events = [Show_alert ''Invalid item code corrected'' ''orange'']\<rparr>)"
  by (simp add: receipt_item_code_def numeric_code_def js_String_def all_digits_def is_digit_def
      js_or_def show_alert_def)

text \<open>The other copies of the guard do nothing at all without a fallback.\<close>

lemma silent_without_fallback:
  assumes "target s = Some d" and "\<not> truthy (d ''code_analytique'')"
  shows "public_item_code str s = (None, s)" and "receipt_validate str s = (None, s)"
    and "po_item_code str s = (None, s)"
    and "before_save_item str d = \<lparr>target = Some d, events = []\<rparr>"
  using assms
  by (simp_all add: public_item_code_eq receipt_validate_eq po_item_code_def js_or_def
      before_save_item_eq)

text \<open>
  C9.  Applying the guard to the state it has left gives the same row, so the same
  \<open>item_code\<close>, as applying it once.
\<close>

theorem guard_idempotent:
  "target (snd (public_item_code str (snd (public_item_code str s))))
     = target (snd (public_item_code str s))
   \<and> target (snd (receipt_validate str (snd (receipt_validate str s))))
       = target (snd (receipt_validate str s))"
proof (cases "target s")
  case None
  then show ?thesis by (simp add: public_item_code_def receipt_validate_def)
next
  case (Some d)
  let ?d' = "d(''item_code'' := d ''code_analytique'')"
  let ?s' = "set_value ''item_code'' (d ''code_analytique'') s"
  have t': "target ?s' = Some ?d'" using Some by (simp add: target_set_value)
  have same: "?d'(''item_code'' := ?d' ''code_analytique'') = ?d'" by simp
  show ?thesis
    using Some
    by (simp add: public_item_code_eq [OF Some] receipt_validate_eq [OF Some]
        public_item_code_eq [OF t'] receipt_validate_eq [OF t'] target_set_value)
qed

text \<open>With the numeric fallback \<open>42\<close>, the code \<open>1\<close> is \<open>42\<close> after one and after two runs.\<close>

theorem guard_idempotent_witness:
  "target (snd (public_item_code no_text (snd (public_item_code no_text
       \<lparr>target = Some (empty_doc(''item_code'' := JStr ''1'', ''code_analytique'' := JStr ''42'')),
        events = []\<rparr>))))
     = Some (empty_doc(''item_code'' := JStr ''42'', ''code_analytique'' := JStr ''42''))"
proof -
  let ?r = "empty_doc(''item_code'' := JStr ''1'', ''code_analytique'' := JStr ''42'')"
  let ?s = "\<lparr>target = Some ?r, events = []\<rparr>"
  have "target (snd (public_item_code no_text ?s))
          = Some (empty_doc(''item_code'' := JStr ''42'', ''code_analytique'' := JStr ''42''))"
    by (simp add: public_item_code_def numeric_code_def js_String_def all_digits_def
        is_digit_def js_or_def set_value_def fun_upd_twist Let_def)
  with guard_idempotent [of no_text ?s] show ?thesis by simp
qed

section \<open>Properties of the Purchase Order import\<close>

text \<open>What the body of the loop leaves in a row it completes.\<close>

lemma budget_line_item_fields:
  assumes "budget_line_item str parse frm_doc fresh line = (None, item)"
  shows "item ''uom'' = js_or (line ''uom'') (JStr ''Nos'')"
    and "item ''stock_uom'' = js_or (line ''uom'') (JStr ''Nos'')"
    and "item ''conversion_factor'' = JNum 1"
    and "item ''schedule_date'' =
           (let schedule_date = js_or (line ''schedule_date'') (frm_doc ''schedule_date'')
            in if \<not> truthy schedule_date
                  \<or> negative (get_diff schedule_date (frm_doc ''transaction_date''))
               then add_days (frm_doc ''transaction_date'') 7
               else schedule_date)"
  using assms
  by (auto simp: budget_line_item_def Let_def split: option.splits if_splits)

text \<open>
  A loop that completes appends one row per line, in order, each the result of the body
  on that line.
\<close>

lemma append_lines_new:
  "append_lines str parse add_child frm_doc its budget_lines = (None, its') \<Longrightarrow>
   \<exists>new. its' = its @ new \<and> length new = length budget_lines
     \<and> (\<forall>i < length budget_lines.
           \<exists>fresh. budget_line_item str parse frm_doc fresh (budget_lines ! i) = (None, new ! i))"
proof (induction budget_lines arbitrary: its)
  case Nil
  then show ?case by simp
next
  case (Cons line rest)
  obtain e item where b: "budget_line_item str parse frm_doc (add_child its) line = (e, item)"
    by (cases "budget_line_item str parse frm_doc (add_child its) line")
  with Cons.prems have e: "e = None"
    and r: "append_lines str parse add_child frm_doc (its @ [item]) rest = (None, its')"
    by (auto split: option.splits)
  from Cons.IH [OF r] obtain new where new: "its' = (its @ [item]) @ new"
    "length new = length rest"
    "\<forall>i < length rest. \<exists>fresh. budget_line_item str parse frm_doc fresh (rest ! i) = (None, new ! i)"
    by blast
  have "\<forall>i < length (line # rest).
          \<exists>fresh. budget_line_item str parse frm_doc fresh ((line # rest) ! i)
                     = (None, (item # new) ! i)"
  proof (intro allI impI)
    fix i assume "i < length (line # rest)"
    then show "\<exists>fresh. budget_line_item str parse frm_doc fresh ((line # rest) ! i)
                     = (None, (item # new) ! i)"
      using b e new(3) by (cases i) auto
  qed
  with new(1,2) show ?case
    by (intro exI [of _ "item # new"]) simp
qed

text \<open>The normalisation only touches \<open>item_name\<close> and \<open>details\<close>.\<close>

lemma normalize_item_frame:
  "normalize_item str it = Inr (it', ch) \<Longrightarrow> f \<noteq> ''item_name'' \<Longrightarrow> f \<noteq> ''details'' \<Longrightarrow>
   it' f = it f"
  by (auto simp: normalize_item_def Let_def split: option.splits if_splits)

lemma normalize_items_frame:
  "normalize_items str its = (e, its', ch) \<Longrightarrow>
   length its' = length its
   \<and> (\<forall>i < length its. \<forall>f. f \<noteq> ''item_name'' \<longrightarrow> f \<noteq> ''details'' \<longrightarrow> (its' ! i) f = (its ! i) f)"
proof (induction its arbitrary: e its' ch)
  case Nil
  then show ?case by simp
next
  case (Cons it rest)
  show ?case
  proof (cases "normalize_item str it")
    case (Inl err)
    with Cons.prems show ?thesis by auto
  next
    case (Inr p)
    obtain it' c where p: "p = (it', c)" by (cases p)
    obtain e1 rest' c1 where r: "normalize_items str rest = (e1, rest', c1)"
      by (cases "normalize_items str rest") auto
    from Cons.prems Inr p r have its': "its' = it' # rest'" by simp
    from Cons.IH [OF r] have len: "length rest' = length rest"
      and fr: "\<forall>i < length rest. \<forall>f. f \<noteq> ''item_name'' \<longrightarrow> f \<noteq> ''details''
                  \<longrightarrow> (rest' ! i) f = (rest ! i) f"
      by blast+
    have "\<forall>i < length (it # rest). \<forall>f. f \<noteq> ''item_name'' \<longrightarrow> f \<noteq> ''details''
            \<longrightarrow> ((it' # rest') ! i) f = ((it # rest) ! i) f"
    proof (intro allI impI)
      fix i f assume "i < length (it # rest)" "f \<noteq> ''item_name''" "f \<noteq> ''details''"
      then show "((it' # rest') ! i) f = ((it # rest) ! i) f"
        using fr normalize_item_frame [of str it it' c f] Inr p by (cases i) auto
    qed
    with its' len show ?thesis by simp
  qed
qed

text \<open>
  The loop does not throw when every description is falsy or has String methods, and
  then the rows of the result are the appended ones, normalised.
\<close>

lemma budget_line_item_ok:
  "\<not> truthy (line ''description'') \<or> as_string str (line ''description'') \<noteq> None \<Longrightarrow>
   fst (budget_line_item str parse frm_doc fresh line) = None"
  by (auto simp: budget_line_item_def Let_def split: option.splits)

lemma append_lines_ok:
  "\<forall>line \<in> set budget_lines.
     \<not> truthy (line ''description'') \<or> as_string str (line ''description'') \<noteq> None \<Longrightarrow>
   fst (append_lines str parse add_child frm_doc its budget_lines) = None"
proof (induction budget_lines arbitrary: its)
  case Nil
  then show ?case by simp
next
  case (Cons line rest)
  obtain item where b: "budget_line_item str parse frm_doc (add_child its) line = (None, item)"
    using budget_line_item_ok [of line str parse frm_doc "add_child its"] Cons.prems
    by (cases "budget_line_item str parse frm_doc (add_child its) line") auto
  from Cons.IH [of "its @ [item]"] Cons.prems b show ?case by simp
qed

lemma add_budget_lines_rows:
  assumes "\<forall>line \<in> set budget_lines.
             \<not> truthy (line ''description'') \<or> as_string str (line ''description'') \<noteq> None"
    and "i < length budget_lines"
  shows "length (items (snd (add_budget_lines_to_po str parse add_child frm budget_lines)))
           = length (items frm) + length budget_lines"
    and "\<exists>fresh item. budget_line_item str parse (fdoc frm) fresh (budget_lines ! i) = (None, item)
           \<and> (\<forall>f. f \<noteq> ''item_name'' \<longrightarrow> f \<noteq> ''details'' \<longrightarrow>
                 (items (snd (add_budget_lines_to_po str parse add_child frm budget_lines))
                    ! (length (items frm) + i)) f = item f)"
proof -
  let ?frm' = "snd (add_budget_lines_to_po str parse add_child frm budget_lines)"
  obtain its1 where a: "append_lines str parse add_child (fdoc frm) (items frm) budget_lines
      = (None, its1)"
    using append_lines_ok [OF assms(1), of parse add_child "fdoc frm" "items frm"]
    by (cases "append_lines str parse add_child (fdoc frm) (items frm) budget_lines") auto
  obtain e2 its2 ch where n: "normalize_items str its1 = (e2, its2, ch)"
    by (cases "normalize_items str its1") auto
  have its: "items ?frm' = its2"
    using a n
    by (auto simp: add_budget_lines_to_po_def normalize_item_descriptions_def
        split: option.splits)
  from append_lines_new [OF a] obtain new where new: "its1 = items frm @ new"
    "length new = length budget_lines"
    "\<forall>i < length budget_lines.
       \<exists>fresh. budget_line_item str parse (fdoc frm) fresh (budget_lines ! i) = (None, new ! i)"
    by blast
  from normalize_items_frame [OF n] have len: "length its2 = length its1"
    and fr: "\<forall>i < length its1. \<forall>f. f \<noteq> ''item_name'' \<longrightarrow> f \<noteq> ''details''
               \<longrightarrow> (its2 ! i) f = (its1 ! i) f"
    by blast+
  show "length (items ?frm') = length (items frm) + length budget_lines"
    using its len new by simp
  from new(3) assms(2) obtain fresh where
    b: "budget_line_item str parse (fdoc frm) fresh (budget_lines ! i) = (None, new ! i)"
    by blast
  have "its1 ! (length (items frm) + i) = new ! i"
    using new by simp
  moreover have "length (items frm) + i < length its1"
    using new assms(2) by simp
  ultimately have "\<forall>f. f \<noteq> ''item_name'' \<longrightarrow> f \<noteq> ''details'' \<longrightarrow>
      (its2 ! (length (items frm) + i)) f = (new ! i) f"
    using fr by metis
  with b its show "\<exists>fresh item.
      budget_line_item str parse (fdoc frm) fresh (budget_lines ! i) = (None, item)
      \<and> (\<forall>f. f \<noteq> ''item_name'' \<longrightarrow> f \<noteq> ''details'' \<longrightarrow>
            (items ?frm' ! (length (items frm) + i)) f = item f)"
    by auto
qed

lemma validate_schedule_date_eq:
  assumes "target s = Some item" and "item ''schedule_date'' = JDate sd"
    and "frm_doc ''transaction_date'' = JDate td"
  shows "validate_schedule_date frm_doc s =
     (None, if sd < td
            then show_alert ''Required By date adjusted to be after transaction date''
                   ''orange'' (set_value ''schedule_date'' (JDate (td + 7)) s)
            else s)"
  using assms
  by (simp add: validate_schedule_date_def get_diff_def add_days_def negative_def)

text \<open>
  C3.  With the transaction date set: a row whose schedule date is strictly earlier gets
  the transaction date plus 7 days from \<open>validate_schedule_date\<close>, and a row whose
  schedule date is on or after it is left as it is; a row imported by
  \<open>add_budget_lines_to_po\<close> (from lines whose descriptions are strings or missing), its
  schedule date being the line's or else the order's, gets the transaction date plus 7
  days when that date is strictly earlier, and that date otherwise.
\<close>

theorem schedule_date_shifted:
  assumes "frm_doc ''transaction_date'' = JDate td"
  shows "(target s = Some item \<and> item ''schedule_date'' = JDate sd \<longrightarrow>
            (sd < td \<longrightarrow>
               target (snd (validate_schedule_date frm_doc s))
                 = Some (item(''schedule_date'' := JDate (td + 7))))
          \<and> (td \<le> sd \<longrightarrow> snd (validate_schedule_date frm_doc s) = s))
       \<and> (fdoc frm = frm_doc
            \<and> (\<forall>line \<in> set budget_lines.
                  \<not> truthy (line ''description'')
                  \<or> as_string str (line ''description'') \<noteq> None)
            \<and> i < length budget_lines
            \<and> js_or ((budget_lines ! i) ''schedule_date'') (frm_doc ''schedule_date'') = JDate sd
            \<longrightarrow>
            (items (snd (add_budget_lines_to_po str parse add_child frm budget_lines))
               ! (length (items frm) + i)) ''schedule_date''
              = (if sd < td then JDate (td + 7) else JDate sd))"
proof (intro conjI impI)
  assume "target s = Some item \<and> item ''schedule_date'' = JDate sd" and "sd < td"
  then show "target (snd (validate_schedule_date frm_doc s))
               = Some (item(''schedule_date'' := JDate (td + 7)))"
    using assms
    by (simp add: validate_schedule_date_eq [of s item sd frm_doc td] set_value_def
        show_alert_def)
next
  assume "target s = Some item \<and> item ''schedule_date'' = JDate sd" and "td \<le> sd"
  then show "snd (validate_schedule_date frm_doc s) = s"
    using assms by (simp add: validate_schedule_date_eq [of s item sd frm_doc td])
next
  assume a: "fdoc frm = frm_doc
            \<and> (\<forall>line \<in> set budget_lines.
                  \<not> truthy (line ''description'')
                  \<or> as_string str (line ''description'') \<noteq> None)
            \<and> i < length budget_lines
            \<and> js_or ((budget_lines ! i) ''schedule_date'') (frm_doc ''schedule_date'') = JDate sd"
  from a have fd: "fdoc frm = frm_doc"
    by (rule conjunct1)
  from a have typed: "\<forall>line \<in> set budget_lines.
                  \<not> truthy (line ''description'')
                  \<or> as_string str (line ''description'') \<noteq> None"
    by (rule conjunct1 [OF conjunct2])
  from a have i: "i < length budget_lines"
    by (rule conjunct1 [OF conjunct2 [OF conjunct2]])
  from a have sd: "js_or ((budget_lines ! i) ''schedule_date'') (frm_doc ''schedule_date'')
                     = JDate sd"
    by (rule conjunct2 [OF conjunct2 [OF conjunct2]])
  from add_budget_lines_rows(2) [OF typed i, where parse = parse and add_child = add_child
      and frm = frm]
  obtain fresh item where
    b: "budget_line_item str parse (fdoc frm) fresh (budget_lines ! i) = (None, item)"
    and f: "\<forall>f. f \<noteq> ''item_name'' \<longrightarrow> f \<noteq> ''details'' \<longrightarrow>
              (items (snd (add_budget_lines_to_po str parse add_child frm budget_lines))
                 ! (length (items frm) + i)) f = item f"
    by blast
  have "item ''schedule_date'' = (if sd < td then JDate (td + 7) else JDate sd)"
    using budget_line_item_fields(4) [OF b] fd sd assms
    by (simp add: get_diff_def add_days_def negative_def)
  with f show "(items (snd (add_budget_lines_to_po str parse add_child frm budget_lines))
               ! (length (items frm) + i)) ''schedule_date''
              = (if sd < td then JDate (td + 7) else JDate sd)"
    by simp
qed

text \<open>
  C8.  Given budget lines whose descriptions are strings or missing,
  \<open>add_budget_lines_to_po\<close> appends one row per line, and the row of a line that carries
  no unit of measure has \<open>uom\<close> and \<open>stock_uom\<close> equal to \<open>Nos\<close> and
  \<open>conversion_factor\<close> equal to 1.
\<close>

theorem import_defaults:
  assumes "\<forall>line \<in> set budget_lines.
             \<not> truthy (line ''description'') \<or> as_string str (line ''description'') \<noteq> None"
    and "i < length budget_lines"
    and "\<not> truthy ((budget_lines ! i) ''uom'')"
  shows "length (items (snd (add_budget_lines_to_po str parse add_child frm budget_lines)))
           = length (items frm) + length budget_lines
       \<and> (items (snd (add_budget_lines_to_po str parse add_child frm budget_lines))
            ! (length (items frm) + i)) ''uom'' = JStr ''Nos''
       \<and> (items (snd (add_budget_lines_to_po str parse add_child frm budget_lines))
            ! (length (items frm) + i)) ''stock_uom'' = JStr ''Nos''
       \<and> (items (snd (add_budget_lines_to_po str parse add_child frm budget_lines))
            ! (length (items frm) + i)) ''conversion_factor'' = JNum 1"
proof -
  from add_budget_lines_rows(2) [OF assms(1,2), where parse = parse and add_child = add_child
      and frm = frm] obtain fresh item where
    b: "budget_line_item str parse (fdoc frm) fresh (budget_lines ! i) = (None, item)"
    and f: "\<forall>f. f \<noteq> ''item_name'' \<longrightarrow> f \<noteq> ''details'' \<longrightarrow>
              (items (snd (add_budget_lines_to_po str parse add_child frm budget_lines))
                 ! (length (items frm) + i)) f = item f"
    by blast
  have "item ''uom'' = JStr ''Nos''" "item ''stock_uom'' = JStr ''Nos''"
    "item ''conversion_factor'' = JNum 1"
    using budget_line_item_fields(1,2,3) [OF b] assms(3) by (simp_all add: js_or_def)
  with f add_budget_lines_rows(1) [OF assms(1,2), where parse = parse
      and add_child = add_child and frm = frm] show ?thesis by simp
qed

text \<open>An import of one line, dated day 5, into an empty order of day 10.\<close>

lemma sample_import:
  "add_budget_lines_to_po no_text no_number blank_child
     \<lparr>fdoc = empty_doc(''transaction_date'' := JDate 10), items = [], calls = []\<rparr>
     [empty_doc(''code_analytique'' := JStr ''B1'', ''schedule_date'' := JDate 5)]
   = (None,
      \<lparr>fdoc = empty_doc(''transaction_date'' := JDate 10),
       items = [empty_doc(''item_code'' := JStr ''B1'', ''code_analytique'' := JStr ''B1'',
                          ''item_name'' := JStr ''B1'', ''details'' := JStr [],
                          ''qty'' := JNum 1, ''rate'' := JNum 0, ''uom'' := JStr ''Nos'',
                          ''stock_uom'' := JStr ''Nos'', ''conversion_factor'' := JNum 1,
                          ''schedule_date'' := JDate 17, ''amount'' := JNum 0)],
       calls = [Refresh_field ''items'', Alert ''Added {0} budget lines'' [1] ''green'']\<rparr>)"
  by (simp add: add_budget_lines_to_po_def budget_line_item_def normalize_item_descriptions_def
      normalize_item_def blank_child_def js_or_def as_string_def trim_def js_space_def
      get_diff_def add_days_def negative_def flt_def or_zero_def js_String_def Let_def)


text \<open>
  With the transaction on day 10, a schedule date of day 5 becomes day 17 and one of day
  12 stays, and the imported row of a line dated day 5 is dated day 17.
\<close>

theorem schedule_date_shifted_witness:
  "target (snd (validate_schedule_date (empty_doc(''transaction_date'' := JDate 10))
       \<lparr>target = Some (empty_doc(''schedule_date'' := JDate 5)), events = []\<rparr>))
     = Some (empty_doc(''schedule_date'' := JDate 17))
   \<and> snd (validate_schedule_date (empty_doc(''transaction_date'' := JDate 10))
       \<lparr>target = Some (empty_doc(''schedule_date'' := JDate 12)), events = []\<rparr>)
     = \<lparr>target = Some (empty_doc(''schedule_date'' := JDate 12)), events = []\<rparr>
   \<and> (items (snd (add_budget_lines_to_po no_text no_number blank_child
          \<lparr>fdoc = empty_doc(''transaction_date'' := JDate 10), items = [], calls = []\<rparr>
          [empty_doc(''code_analytique'' := JStr ''B1'', ''schedule_date'' := JDate 5)])) ! 0)
        ''schedule_date'' = JDate 17"
proof -
  let ?doc = "empty_doc(''transaction_date'' := JDate 10)"
  let ?early = "empty_doc(''schedule_date'' := JDate 5)"
  let ?late = "empty_doc(''schedule_date'' := JDate 12)"
  let ?frm = "\<lparr>fdoc = ?doc, items = [], calls = []\<rparr>"
  let ?lines = "[empty_doc(''code_analytique'' := JStr ''B1'', ''schedule_date'' := JDate 5)]"
  have ok: "\<forall>line \<in> set ?lines.
              \<not> truthy (line ''description'') \<or> as_string no_text (line ''description'') \<noteq> None"
    by simp
  have a: "target (snd (validate_schedule_date ?doc \<lparr>target = Some ?early, events = []\<rparr>))
             = Some (?early(''schedule_date'' := JDate 17))"
    using schedule_date_shifted [where frm_doc = ?doc and td = 10 and sd = 5
        and s = "\<lparr>target = Some ?early, events = []\<rparr>" and item = ?early]
    by simp
  have b: "snd (validate_schedule_date ?doc \<lparr>target = Some ?late, events = []\<rparr>)
             = \<lparr>target = Some ?late, events = []\<rparr>"
    using schedule_date_shifted [where frm_doc = ?doc and td = 10 and sd = 12
        and s = "\<lparr>target = Some ?late, events = []\<rparr>" and item = ?late]
    by simp
  have c: "(items (snd (add_budget_lines_to_po no_text no_number blank_child ?frm ?lines)) ! 0)
             ''schedule_date'' = JDate 17"
    using schedule_date_shifted [where frm_doc = ?doc and td = 10 and sd = 5 and frm = ?frm
        and str = no_text and parse = no_number and add_child = blank_child
        and budget_lines = ?lines and i = 0] ok
    by (simp add: js_or_def)
  from a b c show ?thesis by simp
qed

text \<open>The row imported from a line without unit has \<open>Nos\<close>, \<open>Nos\<close> and 1.\<close>

theorem import_defaults_witness:
  "(items (snd (add_budget_lines_to_po no_text no_number blank_child
       \<lparr>fdoc = empty_doc(''transaction_date'' := JDate 10), items = [], calls = []\<rparr>
       [empty_doc(''code_analytique'' := JStr ''B1'', ''schedule_date'' := JDate 5)])) ! 0)
     ''uom'' = JStr ''Nos''
   \<and> (items (snd (add_budget_lines_to_po no_text no_number blank_child
       \<lparr>fdoc = empty_doc(''transaction_date'' := JDate 10), items = [], calls = []\<rparr>
       [empty_doc(''code_analytique'' := JStr ''B1'', ''schedule_date'' := JDate 5)])) ! 0)
     ''stock_uom'' = JStr ''Nos''
   \<and> (items (snd (add_budget_lines_to_po no_text no_number blank_child
       \<lparr>fdoc = empty_doc(''transaction_date'' := JDate 10), items = [], calls = []\<rparr>
       [empty_doc(''code_analytique'' := JStr ''B1'', ''schedule_date'' := JDate 5)])) ! 0)
     ''conversion_factor'' = JNum 1"
proof -
  let ?frm = "\<lparr>fdoc = empty_doc(''transaction_date'' := JDate 10), items = [], calls = []\<rparr>"
  let ?lines = "[empty_doc(''code_analytique'' := JStr ''B1'', ''schedule_date'' := JDate 5)]"
  have ok: "\<forall>line \<in> set ?lines.
              \<not> truthy (line ''description'') \<or> as_string no_text (line ''description'') \<noteq> None"
    by simp
  have i: "0 < length ?lines" by simp
  have u: "\<not> truthy ((?lines ! 0) ''uom'')" by simp
  from import_defaults [where str = no_text and parse = no_number and add_child = blank_child
      and frm = ?frm and budget_lines = ?lines and i = 0] ok i u
  show ?thesis by simp
qed

text \<open>
  The same defaults in the callback of \<open>code_analytique\<close> of the Purchase Receipt script,
  for a row and an answer that carry none of these fields.
\<close>

lemma callback_defaults:
  assumes "\<not> truthy (d ''uom'')" and "\<not> truthy (d ''stock_uom'')"
    and "\<not> truthy (d ''conversion_factor'')" and "\<not> truthy (info ''stock_uom'')"
  shows "field (code_analytique_callback (Some info) d) ''uom'' = JStr ''Nos''"
    and "field (code_analytique_callback (Some info) d) ''stock_uom'' = JStr ''Nos''"
    and "field (code_analytique_callback (Some info) d) ''conversion_factor'' = JNum 1"
  using assms
  by (simp_all add: code_analytique_callback_def field_def set_value_def js_or_def Let_def)

section \<open>Properties of the installation script\<close>

lemma block_echo: "block (echo m # rest) = (Echo m # fst (block rest), snd (block rest))"
  by (simp add: block_def andthen_def echo_def)

lemma block_exit: "block (exit n # rest) = ([], Some n)"
  by (simp add: block_def andthen_def exit_def)

lemma block_stop: "block ((acts, Some n) # rest) = (acts, Some n)"
  by (simp add: block_def andthen_def)

text \<open>
  C6.  Run where \<open>sites/apps.txt\<close> is not a file, the script prints its two banner
  lines and the two lines of the directory-mismatch error and exits with status 1; all
  it has done is print: no command was run and no line appended.
\<close>

theorem not_a_bench_directory:
  assumes "\<not> apps_txt_is_file d"
  shows "install_on_target d script site =
           ([Echo ''=== SDRT App Installation Script ==='',
             Echo ''Installing SDRT app in Frappe environment...'',
             Echo ([CHR 0xE2, CHR 0x9D, CHR 0x8C] @ '' Error: This doesn'' @ [CHR 0x27]
                     @ ''t appear to be a frappe-bench directory''),
             Echo ''Please run this script from your frappe-bench folder''], 1)
       \<and> (\<forall>a \<in> set (fst (install_on_target d script site)). \<exists>m. a = Echo m)"
proof -
  have "install_on_target d script site =
           ([Echo ''=== SDRT App Installation Script ==='',
             Echo ''Installing SDRT app in Frappe environment...'',
             Echo ([CHR 0xE2, CHR 0x9D, CHR 0x8C] @ '' Error: This doesn'' @ [CHR 0x27]
                     @ ''t appear to be a frappe-bench directory''),
             Echo ''Please run this script from your frappe-bench folder''], 1)"
    unfolding install_on_target_def
    using assms
    by (simp only: not_False_eq_True if_True block_echo block_exit block_stop fst_conv
        snd_conv finish_def option.case)
  then show ?thesis by simp
qed

text \<open>In a directory that is not a bench: four lines printed, status 1.\<close>

theorem not_a_bench_directory_witness:
  "snd (install_on_target no_bench ''install_on_target.sh'' ''site1'') = 1
   \<and> length (fst (install_on_target no_bench ''install_on_target.sh'' ''site1'')) = 4"
proof -
  have h: "\<not> apps_txt_is_file no_bench" by (simp add: no_bench_def)
  from not_a_bench_directory [OF h, of "''install_on_target.sh''" "''site1''"]
  show ?thesis by simp
qed

end
